theory Spec2Isabelle
  imports Main "HOL-Library.Sublist" "HOL-Library.List_Lexorder" "HOL-Library.Char_ord"
begin

section \<open>Text\<close>

text \<open>
  The program is \<^verbatim>\<open>src/main.py\<close>: an interactive driver that runs an external
  converter once and an external quantizer once per selected profile. A Python \<^verbatim>\<open>str\<close> is
  modelled as a \<open>string\<close> of ASCII characters; the four pictographs of the messages are
  kept as their UTF-8 bytes. The string methods below are the ones the program calls, with
  Python's results on ASCII text.
\<close>

definition nl :: char where
  "nl = CHR 0x0A"

definition apos :: string where
  "apos = [CHR 0x27]"

definition cross_mark :: string where
  "cross_mark = [CHR 0xE2, CHR 0x9D, CHR 0x8C]"

definition check_mark :: string where
  "check_mark = [CHR 0xE2, CHR 0x9C, CHR 0x85]"

definition package_mark :: string where
  "package_mark = [CHR 0xF0, CHR 0x9F, CHR 0x93, CHR 0xA6]"

definition folder_mark :: string where
  "folder_mark = [CHR 0xF0, CHR 0x9F, CHR 0x93, CHR 0x81]"

text \<open>\<^verbatim>\<open>str.isspace\<close> on one ASCII character: tab, line feed, vertical tab, form feed,
  carriage return, the four separators 0x1C..0x1F and the blank.\<close>

definition isspace :: "char \<Rightarrow> bool" where
  "isspace c = (c \<in> set [CHR 0x09, CHR 0x0A, CHR 0x0B, CHR 0x0C, CHR 0x0D,
                          CHR 0x1C, CHR 0x1D, CHR 0x1E, CHR 0x1F, CHR '' ''])"

text \<open>\<^verbatim>\<open>s.strip()\<close>: leading and trailing whitespace removed.\<close>

definition strip :: "string \<Rightarrow> string" where
  "strip s = rev (dropWhile isspace (rev (dropWhile isspace s)))"

text \<open>\<^verbatim>\<open>s.rstrip(c)\<close> for a one-character argument: every trailing \<open>c\<close> removed.\<close>

definition rstrip :: "char \<Rightarrow> string \<Rightarrow> string" where
  "rstrip c s = rev (dropWhile (\<lambda>x. x = c) (rev s))"

definition upper_char :: "char \<Rightarrow> char" where
  "upper_char c =
     (case map_of (zip ''abcdefghijklmnopqrstuvwxyz'' ''ABCDEFGHIJKLMNOPQRSTUVWXYZ'') c of
        Some u \<Rightarrow> u
      | None \<Rightarrow> c)"

definition lower_char :: "char \<Rightarrow> char" where
  "lower_char c =
     (case map_of (zip ''ABCDEFGHIJKLMNOPQRSTUVWXYZ'' ''abcdefghijklmnopqrstuvwxyz'') c of
        Some l \<Rightarrow> l
      | None \<Rightarrow> c)"

definition upper :: "string \<Rightarrow> string" where
  "upper s = map upper_char s"

definition lower :: "string \<Rightarrow> string" where
  "lower s = map lower_char s"

text \<open>\<^verbatim>\<open>s.split(c)\<close> with a one-character separator: the pieces between the separators,
  empty pieces kept; a text with no separator is its own single piece.\<close>

function split :: "char \<Rightarrow> string \<Rightarrow> string list" where
  "split c s =
     (case dropWhile (\<lambda>x. x \<noteq> c) s of
        [] \<Rightarrow> [s]
      | _ # rest \<Rightarrow> takeWhile (\<lambda>x. x \<noteq> c) s # split c rest)"
  by pat_completeness auto
termination
proof (relation "measure (\<lambda>(c, s). length s)")
  show "wf (measure (\<lambda>(c, s). length s))" by simp
next
  fix c :: char and s x21 x22
  assume "dropWhile (\<lambda>x. x \<noteq> c) s = x21 # x22"
  then have "length (x21 # x22) \<le> length s"
    using length_dropWhile_le [of "\<lambda>x. x \<noteq> c" s] by simp
  then show "((c, x22), (c, s)) \<in> measure (\<lambda>(c, s). length s)" by simp
qed

text \<open>\<^verbatim>\<open>sep.join(xs)\<close>.\<close>

fun join :: "string \<Rightarrow> string list \<Rightarrow> string" where
  "join sep [] = []"
| "join sep [x] = x"
| "join sep (x # y # ys) = x @ sep @ join sep (y # ys)"

text \<open>\<^verbatim>\<open>os.path.basename\<close> of \<^verbatim>\<open>posixpath\<close>: what follows the last slash.\<close>

definition basename :: "string \<Rightarrow> string" where
  "basename p = rev (takeWhile (\<lambda>x. x \<noteq> CHR ''/'') (rev p))"

text \<open>\<^verbatim>\<open>os.path.join(a, b)\<close> of \<^verbatim>\<open>posixpath\<close> for two parts: an absolute \<open>b\<close>
  replaces \<open>a\<close>; otherwise one slash separates them unless \<open>a\<close> is empty or ends in one.\<close>

definition path_join :: "string \<Rightarrow> string \<Rightarrow> string" where
  "path_join a b =
     (if b \<noteq> [] \<and> hd b = CHR ''/'' then b
      else if a = [] \<or> last a = CHR ''/'' then a @ b
      else a @ ''/'' @ b)"

text \<open>The decimal digit of a number below ten (the only use made of it).\<close>

definition digit :: "nat \<Rightarrow> char" where
  "digit d = ''0123456789'' ! d"

text \<open>\<^verbatim>\<open>str(n)\<close> for a natural number, and for an integer.\<close>

fun show_nat :: "nat \<Rightarrow> string" where
  "show_nat n = (if n < 10 then [digit n] else show_nat (n div 10) @ [digit (n mod 10)])"

definition show_int :: "int \<Rightarrow> string" where
  "show_int i = (if i < 0 then ''-'' @ show_nat (nat (- i)) else show_nat (nat i))"

text \<open>\<^verbatim>\<open>s.rjust(w)\<close>, the padding of the format \<^verbatim>\<open>{i:2d}\<close>.\<close>

definition rjust :: "nat \<Rightarrow> string \<Rightarrow> string" where
  "rjust w s = replicate (w - length s) CHR '' '' @ s"

text \<open>The format \<^verbatim>\<open>{x:.1f}\<close> of \<^verbatim>\<open>x = size / (1024 * 1024)\<close> for a size in bytes. Below
  \<open>2 ^ 53\<close> bytes the quotient is an exact float, and the format rounds its exact value to
  one decimal, a tie to the even digit: the arithmetic is written out on integers.\<close>

definition fmt_mb :: "nat \<Rightarrow> string" where
  "fmt_mb bytes =
     (let q = (bytes * 10) div 1048576;
          r = (bytes * 10) mod 1048576;
          t = (if r > 524288 \<or> (r = 524288 \<and> odd q) then q + 1 else q)
      in show_nat (t div 10) @ ''.'' @ show_nat (t mod 10))"

section \<open>The machine the program runs on\<close>

text \<open>
  A path names a file by its spelling (no normalisation, no links). The file system is an
  association list from paths to nodes, a file or a directory, each with the size its
  status reports. The console is the list of what is still to be
  typed, a line or an interrupt key, and the list of texts written so far; the end of the
  typed list is the end of the input. An external command is whatever the machine makes
  of it: an exit status, or an interrupt while the program waits, and a new file system.
  \<open>cmds\<close> records the command lines handed to the shell, in order.
\<close>

datatype node = File nat | Dir nat

type_synonym fsys = "(string \<times> node) list"

datatype event = Line string | Interrupt

datatype proc = Exited int | Interrupted

record world =
  files :: fsys
  stdin :: "event list"
  stdout :: "string list"
  shell :: "string \<Rightarrow> fsys \<Rightarrow> proc \<times> fsys"
  cmds :: "string list"

text \<open>The exceptions of a run. \<open>SystemExit\<close> and \<open>KeyboardInterrupt\<close> are not subclasses of
  \<^verbatim>\<open>Exception\<close>; the others are, and carry the text \<^verbatim>\<open>str(e)\<close> gives.\<close>

datatype exn =
    KeyboardInterrupt
  | SystemExit int
  | EOFError
  | TypeError string
  | UnboundLocalError string
  | OSError string

text \<open>\<^verbatim>\<open>os.path.exists\<close> and \<^verbatim>\<open>os.path.getsize\<close>.\<close>

definition exists :: "string \<Rightarrow> fsys \<Rightarrow> bool" where
  "exists p fs = (map_of fs p \<noteq> None)"

definition getsize :: "string \<Rightarrow> fsys \<Rightarrow> exn + nat" where
  "getsize p fs =
     (case map_of fs p of
        None \<Rightarrow> Inl (OSError p)
      | Some (File n) \<Rightarrow> Inr n
      | Some (Dir n) \<Rightarrow> Inr n)"

text \<open>\<^verbatim>\<open>print(s)\<close> writes one text; \<^verbatim>\<open>input(prompt)\<close> writes the prompt and reads one
  line, raising \<^verbatim>\<open>EOFError\<close> at the end of the input and \<^verbatim>\<open>KeyboardInterrupt\<close> at an
  interrupt.\<close>

definition print :: "string \<Rightarrow> world \<Rightarrow> world" where
  "print s w = w\<lparr>stdout := stdout w @ [s]\<rparr>"

definition input :: "string \<Rightarrow> world \<Rightarrow> (exn + string) \<times> world" where
  "input prompt w =
     (case stdin w of
        [] \<Rightarrow> (Inl EOFError, print prompt w)
      | Line s # rest \<Rightarrow> (Inr s, (print prompt w)\<lparr>stdin := rest\<rparr>)
      | Interrupt # rest \<Rightarrow> (Inl KeyboardInterrupt, (print prompt w)\<lparr>stdin := rest\<rparr>))"

section \<open>The program\<close>

definition QUANTIZATION_TYPES :: "string list" where
  "QUANTIZATION_TYPES =
     [''Q2_K'', ''Q3_K_S'', ''Q3_K_M'', ''Q3_K_L'', ''Q4_K_S'', ''Q4_0'',
      ''Q4_1'', ''Q4_K_M'', ''Q5_K_S'', ''Q5_K_M'', ''Q6_K'', ''Q8_0'']"

subsection \<open>get_user_input\<close>

text \<open>The first loop (lines 48 to 63): ask for the model directory until a non-empty path
  is given that exists or is confirmed. Every round reads at least one line.\<close>

function ask_model_path :: "world \<Rightarrow> (exn + string) \<times> world" where
  "ask_model_path w =
     (case input (nl # ''Enter the model directory path (e.g., 'my-model'): '') w of
        (Inl e, w1) \<Rightarrow> (Inl e, w1)
      | (Inr s, w1) \<Rightarrow>
          (let model_path = strip s in
           if model_path = [] then ask_model_path (print ''Model path cannot be empty'' w1)
           else if \<not> exists model_path (files w1) then
             (case input ''Continue anyway? (y/n): ''
                     (print (''Warning: Directory '' @ apos @ model_path @ apos @ '' does not exist'') w1) of
                (Inl e, w2) \<Rightarrow> (Inl e, w2)
              | (Inr c, w2) \<Rightarrow>
                  if lower (strip c) \<noteq> ''y'' then ask_model_path w2
                  else (Inr model_path, w2))
           else (Inr model_path, w1)))"
  by pat_completeness auto

lemma stdin_print [simp]: "stdin (print s w) = stdin w"
  by (simp add: print_def)

lemma input_Inr_shorter:
  "input p w = (Inr s, w') \<Longrightarrow> length (stdin w') < length (stdin w)"
  by (auto simp: input_def split: list.splits event.splits)

termination ask_model_path
proof (relation "measure (\<lambda>w. length (stdin w))")
  show "wf (measure (\<lambda>w. length (stdin w)))" by simp
next
  fix w x w1 s
  assume "(x, w1) = input (nl # ''Enter the model directory path (e.g., 'my-model'): '') w"
    and "x = Inr s"
  then show "(print ''Model path cannot be empty'' w1, w) \<in> measure (\<lambda>w. length (stdin w))"
    using input_Inr_shorter [of _ w s w1] by simp
next
  fix w x w1 s model_path y w2 c
  assume a: "(x, w1) = input (nl # ''Enter the model directory path (e.g., 'my-model'): '') w"
    "x = Inr s"
    and b: "(y, w2) = input ''Continue anyway? (y/n): ''
              (print (''Warning: Directory '' @ apos @ model_path @ apos @ '' does not exist'') w1)"
    "y = Inr c"
  have "length (stdin w1) < length (stdin w)"
    using a input_Inr_shorter [of _ w s w1] by simp
  moreover have "length (stdin w2) < length (stdin w1)"
    using b input_Inr_shorter [of _ "print (''Warning: Directory '' @ apos @ model_path @ apos @ '' does not exist'') w1" c w2]
    by simp
  ultimately show "(w2, w) \<in> measure (\<lambda>w. length (stdin w))" by simp
qed

text \<open>Lines 66 to 71: the default output name is the base name of the path without its
  trailing slashes; an empty answer keeps the default.\<close>

definition ask_output_name :: "string \<Rightarrow> world \<Rightarrow> (exn + string) \<times> world" where
  "ask_output_name model_path w =
     (let model_name = basename (rstrip CHR ''/'' model_path) in
      case input (nl # ''Enter output filename prefix (default: '' @ apos @ model_name @ apos @ ''): '') w of
        (Inl e, w1) \<Rightarrow> (Inl e, w1)
      | (Inr s, w1) \<Rightarrow>
          (let output_name = strip s in
           (Inr (if output_name = [] then model_name else output_name), w1)))"

text \<open>Lines 95 to 97: the numbered list of the types.\<close>

definition numbered :: "string list \<Rightarrow> string list" where
  "numbered qs =
     map (\<lambda>(i, q_type). rjust 2 (show_nat i) @ ''. '' @ q_type) (zip [1 ..< Suc (length qs)] qs)"

definition print_numbered :: "string list \<Rightarrow> world \<Rightarrow> world" where
  "print_numbered qs w = fold print (numbered qs) w"

text \<open>Lines 109 and 112: the names typed, each stripped and put in upper case, and those
  of them that are not in the fixed list.\<close>

definition custom_types_of :: "string \<Rightarrow> string list" where
  "custom_types_of custom_input = map (\<lambda>t. upper (strip t)) (split CHR '','' custom_input)"

definition invalid_types_of :: "string list \<Rightarrow> string list" where
  "invalid_types_of custom_types = filter (\<lambda>t. t \<notin> set QUANTIZATION_TYPES) custom_types"

text \<open>The second loop (lines 81 to 124). Nothing in its body raises \<^verbatim>\<open>ValueError\<close> on
  ASCII input, so the handler of line 123 has no branch here; the exceptions of
  \<^verbatim>\<open>input\<close> pass through it.\<close>

function select_quants :: "world \<Rightarrow> (exn + string list) \<times> world" where
  "select_quants w =
     (case input (nl # ''Select option (1-2, or press Enter for default): '') w of
        (Inl e, w1) \<Rightarrow> (Inl e, w1)
      | (Inr s, w1) \<Rightarrow>
          (let choice = strip s in
           if choice = [] \<or> choice = ''1'' then
             (let selected_quants = QUANTIZATION_TYPES in
              (Inr selected_quants,
               print (check_mark @ '' Selected: ALL quantization types (''
                        @ show_nat (length selected_quants) @ '' types)'') w1))
           else if choice = ''2'' then
             (let w2 = print (nl # ''Enter quantization types (comma-separated, e.g., 'Q4_K_M,Q5_K_M'):'')
                         (print_numbered QUANTIZATION_TYPES
                           (print (nl # ''Available quantization types:'') w1)) in
              case input ''Types: '' w2 of
                (Inl e, w3) \<Rightarrow> (Inl e, w3)
              | (Inr t, w3) \<Rightarrow>
                  (let custom_input = strip t in
                   if custom_input = [] then
                     (Inr QUANTIZATION_TYPES,
                      print (cross_mark @ '' No types selected, using all types'') w3)
                   else
                     (let custom_types = custom_types_of custom_input;
                          invalid_types = invalid_types_of custom_types in
                      if invalid_types \<noteq> [] then
                        select_quants
                          (print (''Valid types: '' @ join '', '' QUANTIZATION_TYPES)
                            (print (cross_mark @ '' Invalid quantization types: ''
                                      @ join '', '' invalid_types) w3))
                      else
                        (Inr custom_types,
                         print (check_mark @ '' Selected: '' @ join '', '' custom_types) w3))))
           else
             select_quants
               (print (cross_mark @ '' Please enter 1 or 2 (or press Enter for default)'') w1)))"
  by pat_completeness auto

lemma stdin_print_numbered [simp]: "stdin (print_numbered qs w) = stdin w"
proof -
  have "stdin (fold print xs w) = stdin w" for xs
    by (induction xs arbitrary: w) auto
  then show ?thesis by (simp add: print_numbered_def)
qed

lemma input_Inr_shorter':
  "(x, w') = input p w \<Longrightarrow> x = Inr s \<Longrightarrow> length (stdin w') < length (stdin w)"
  using input_Inr_shorter [of p w s w'] by simp

termination select_quants
proof (relation "measure (\<lambda>w. length (stdin w))", goal_cases)
  case 1
  show ?case by simp
next
  case (2 w x w1 s choice w2 y w3 t)
  have "length (stdin w1) < length (stdin w)"
    using 2(1,2) by (rule input_Inr_shorter')
  moreover have "length (stdin w3) < length (stdin w2)"
    using 2(7,8) by (rule input_Inr_shorter')
  moreover have "stdin w2 = stdin w1"
    using 2(6) by simp
  ultimately show ?case by simp
next
  case (3 w x w1 s choice)
  have "length (stdin w1) < length (stdin w)"
    using 3(1,2) by (rule input_Inr_shorter')
  then show ?case by simp
qed

text \<open>Lines 42 to 126.\<close>

definition get_user_input :: "world \<Rightarrow> (exn + string \<times> string \<times> string list) \<times> world" where
  "get_user_input w =
     (case ask_model_path
             (print (replicate 50 CHR ''='') (print ''Llama.cpp Model Converter and Quantizer'' w)) of
        (Inl e, w1) \<Rightarrow> (Inl e, w1)
      | (Inr model_path, w1) \<Rightarrow>
          (case ask_output_name model_path w1 of
             (Inl e, w2) \<Rightarrow> (Inl e, w2)
           | (Inr output_name, w2) \<Rightarrow>
               (case select_quants
                       (print ''2. Select specific quantization types''
                         (print ''1. Convert to ALL quantization types (default)''
                           (print (nl # ''Options:'')
                             (print (''Available types: '' @ join '', '' QUANTIZATION_TYPES)
                               (print (nl # ''Quantization options:'') w2))))) of
                  (Inl e, w3) \<Rightarrow> (Inl e, w3)
                | (Inr selected_quants, w3) \<Rightarrow>
                    (Inr (model_path, output_name, selected_quants), w3))))"

declare select_quants.simps [simp del] ask_model_path.simps [simp del]
  split.simps [simp del] show_nat.simps [simp del]

subsection \<open>run_command\<close>

text \<open>Lines 24 to 39. \<^verbatim>\<open>subprocess.run(..., shell=True, check=True)\<close> hands the command line
  to the shell and raises \<^verbatim>\<open>CalledProcessError\<close> on a non-zero exit status, which the
  function turns into \<^verbatim>\<open>False\<close>; an interrupt while waiting is not caught here.\<close>

definition run_command :: "string \<Rightarrow> string \<Rightarrow> world \<Rightarrow> (exn + bool) \<times> world" where
  "run_command command description w =
     (let w1 = print (replicate 50 CHR ''-'')
                 (print (''Running: '' @ command) (print (nl # description) w)) in
      case shell w1 command (files w1) of
        (Exited returncode, fs) \<Rightarrow>
          (let w2 = w1\<lparr>files := fs, cmds := cmds w1 @ [command]\<rparr> in
           if returncode = 0 then
             (Inr True, print (description @ '' completed successfully'') w2)
           else
             (Inr False,
              print (''Command failed with return code: '' @ show_int returncode)
                (print (''Error during '' @ description) w2)))
      | (Interrupted, fs) \<Rightarrow>
          (Inl KeyboardInterrupt, w1\<lparr>files := fs, cmds := cmds w1 @ [command]\<rparr>))"

subsection \<open>convert_to_gguf\<close>

text \<open>Lines 129 to 150. The result is the name of the f16 file, or \<^verbatim>\<open>None\<close>.\<close>

definition convert_command :: "string \<Rightarrow> string \<Rightarrow> string" where
  "convert_command model_path output_name =
     ''python3 ./llama/convert_hf_to_gguf.py ./'' @ model_path
       @ '' --outfile '' @ output_name @ ''-f16.gguf'' @ '' --outtype f16''"

definition convert_to_gguf :: "string \<Rightarrow> string \<Rightarrow> world \<Rightarrow> (exn + string option) \<times> world" where
  "convert_to_gguf model_path output_name w =
     (let f16_file = output_name @ ''-f16.gguf'';
          convert_script = ''./llama/convert_hf_to_gguf.py'' in
      if \<not> exists convert_script (files w) then
        (Inr None,
         print ''Make sure you're running this from the llama.cpp directory''
           (print (cross_mark @ '' Conversion script not found: '' @ convert_script) w))
      else
        (case run_command (convert_command model_path output_name)
                (''Converting '' @ model_path @ '' to GGUF format'') w of
           (Inl e, w1) \<Rightarrow> (Inl e, w1)
         | (Inr success, w1) \<Rightarrow>
             if success \<and> exists f16_file (files w1) then (Inr (Some f16_file), w1)
             else (Inr None, print (cross_mark @ '' Failed to create '' @ f16_file) w1)))"

subsection \<open>quantize_model\<close>

text \<open>Lines 153 to 180. The function returns \<^verbatim>\<open>False\<close> when the quantizer is missing
  (line 161) and the pair of lists otherwise (line 180).\<close>

datatype quantize_result = ReturnedFalse | ReturnedLists "string list" "string list"

definition quantize_command :: "string \<Rightarrow> string \<Rightarrow> string \<Rightarrow> string" where
  "quantize_command f16_file output_name quant_type =
     ''./llama/bin/llama-quantize'' @ '' '' @ f16_file @ '' ''
       @ output_name @ ''-'' @ quant_type @ ''.gguf'' @ '' '' @ quant_type"

text \<open>The loop of lines 166 to 178, with the two lists it appends to.\<close>

fun quantize_loop ::
  "string \<Rightarrow> string \<Rightarrow> string list \<Rightarrow> string list \<Rightarrow> string list \<Rightarrow> world
     \<Rightarrow> (exn + string list \<times> string list) \<times> world" where
  "quantize_loop f16_file output_name [] successful_quants failed_quants w =
     (Inr (successful_quants, failed_quants), w)"
| "quantize_loop f16_file output_name (quant_type # rest) successful_quants failed_quants w =
     (let output_file = output_name @ ''-'' @ quant_type @ ''.gguf'' in
      case run_command (quantize_command f16_file output_name quant_type)
             (''Quantizing to '' @ quant_type) w of
        (Inl e, w1) \<Rightarrow> (Inl e, w1)
      | (Inr success, w1) \<Rightarrow>
          if success \<and> exists output_file (files w1) then
            (case getsize output_file (files w1) of
               Inl e \<Rightarrow> (Inl e, w1)
             | Inr file_size \<Rightarrow>
                 quantize_loop f16_file output_name rest
                   (successful_quants @ [quant_type]) failed_quants
                   (print (package_mark @ '' Created '' @ output_file
                             @ '' ('' @ fmt_mb file_size @ '' MB)'') w1))
          else
            quantize_loop f16_file output_name rest
              successful_quants (failed_quants @ [quant_type]) w1)"

definition quantize_model ::
  "string \<Rightarrow> string \<Rightarrow> string list \<Rightarrow> world \<Rightarrow> (exn + quantize_result) \<times> world" where
  "quantize_model f16_file output_name quant_types w =
     (let quantizer = ''./llama/bin/llama-quantize'' in
      if \<not> exists quantizer (files w) then
        (Inr ReturnedFalse,
         print ''Make sure you have the llama.cpp release binary''
           (print (cross_mark @ '' Quantizer not found: '' @ quantizer) w))
      else
        (case quantize_loop f16_file output_name quant_types [] [] w of
           (Inl e, w1) \<Rightarrow> (Inl e, w1)
         | (Inr (successful_quants, failed_quants), w1) \<Rightarrow>
             (Inr (ReturnedLists successful_quants failed_quants), w1)))"

subsection \<open>main\<close>

text \<open>The file operations the last part of \<^verbatim>\<open>main\<close> calls. \<^verbatim>\<open>os.makedirs(p, exist_ok=True)\<close>
  fails when \<open>p\<close> is a file; \<^verbatim>\<open>os.rename\<close> fails when the source is missing or the
  directory of the destination does not exist; \<^verbatim>\<open>os.listdir\<close> gives the names directly
  under a directory; \<^verbatim>\<open>os.remove\<close> deletes a file.\<close>

definition makedirs :: "string \<Rightarrow> fsys \<Rightarrow> exn + fsys" where
  "makedirs p fs =
     (case map_of fs p of
        None \<Rightarrow> Inr ((p, Dir 4096) # fs)
      | Some (Dir _) \<Rightarrow> Inr fs
      | Some (File _) \<Rightarrow> Inl (OSError (''File exists: '' @ p)))"

definition dirname :: "string \<Rightarrow> string" where
  "dirname p =
     (let head = rev (dropWhile (\<lambda>x. x \<noteq> CHR ''/'') (rev p)) in
      if rstrip CHR ''/'' head = [] then head else rstrip CHR ''/'' head)"

definition is_dir :: "string \<Rightarrow> fsys \<Rightarrow> bool" where
  "is_dir p fs = (case map_of fs p of Some (Dir _) \<Rightarrow> True | _ \<Rightarrow> False)"

definition rename :: "string \<Rightarrow> string \<Rightarrow> fsys \<Rightarrow> exn + fsys" where
  "rename src dst fs =
     (case map_of fs src of
        None \<Rightarrow> Inl (OSError (''No such file or directory: '' @ src))
      | Some n \<Rightarrow>
          if dirname dst \<noteq> [] \<and> \<not> is_dir (dirname dst) fs then
            Inl (OSError (''No such file or directory: '' @ dst))
          else Inr ((dst, n) # filter (\<lambda>(p, _). p \<noteq> src \<and> p \<noteq> dst) fs))"

definition listdir :: "string \<Rightarrow> fsys \<Rightarrow> exn + string list" where
  "listdir d fs =
     (if \<not> is_dir d fs then Inl (OSError (''Not a directory: '' @ d))
      else Inr (filter (\<lambda>name. name \<noteq> [] \<and> CHR ''/'' \<notin> set name)
                  (map (\<lambda>(p, _). drop (Suc (length d)) p)
                     (filter (\<lambda>(p, _). take (Suc (length d)) p = d @ ''/'') fs))))"

definition remove :: "string \<Rightarrow> fsys \<Rightarrow> exn + fsys" where
  "remove p fs =
     (case map_of fs p of
        Some (File _) \<Rightarrow> Inr (filter (\<lambda>(q, _). q \<noteq> p) fs)
      | _ \<Rightarrow> Inl (OSError (''Cannot remove: '' @ p)))"

text \<open>\<^verbatim>\<open>s.endswith(t)\<close>.\<close>

definition endswith :: "string \<Rightarrow> string \<Rightarrow> bool" where
  "endswith s t = (length t \<le> length s \<and> drop (length s - length t) s = t)"

text \<open>Lines 242 to 255: one file is moved into the folder if it exists, and noted.\<close>

definition move_one :: "string \<Rightarrow> string \<Rightarrow> string list \<Rightarrow> world \<Rightarrow> (exn + string list) \<times> world" where
  "move_one gguf_folder file moved_files w =
     (if exists file (files w) then
        (case rename file (path_join gguf_folder file) (files w) of
           Inl e \<Rightarrow> (Inl e, w)
         | Inr fs \<Rightarrow> (Inr (moved_files @ [file]), print (''Moved '' @ file) (w\<lparr>files := fs\<rparr>)))
      else (Inr moved_files, w))"

fun move_quants ::
  "string \<Rightarrow> string \<Rightarrow> string list \<Rightarrow> string list \<Rightarrow> world \<Rightarrow> (exn + string list) \<times> world" where
  "move_quants gguf_folder output_name [] moved_files w = (Inr moved_files, w)"
| "move_quants gguf_folder output_name (quant # rest) moved_files w =
     (case move_one gguf_folder (output_name @ ''-'' @ quant @ ''.gguf'') moved_files w of
        (Inl e, w1) \<Rightarrow> (Inl e, w1)
      | (Inr moved, w1) \<Rightarrow> move_quants gguf_folder output_name rest moved w1)"

text \<open>Lines 263 to 270: the listing, in its own handler.\<close>

fun list_sizes :: "string \<Rightarrow> string list \<Rightarrow> world \<Rightarrow> (exn + unit) \<times> world" where
  "list_sizes gguf_folder [] w = (Inr (), w)"
| "list_sizes gguf_folder (filename # rest) w =
     (if endswith filename ''.gguf'' then
        (case getsize (path_join gguf_folder filename) (files w) of
           Inl e \<Rightarrow> (Inl e, w)
         | Inr n \<Rightarrow>
             list_sizes gguf_folder rest
               (print (''   '' @ filename @ '' ('' @ fmt_mb n @ '' MB)'') w))
      else list_sizes gguf_folder rest w)"

text \<open>The text of an exception, \<^verbatim>\<open>str(e)\<close>.\<close>

definition str_exn :: "exn \<Rightarrow> string" where
  "str_exn e =
     (case e of
        KeyboardInterrupt \<Rightarrow> []
      | SystemExit n \<Rightarrow> show_int n
      | EOFError \<Rightarrow> ''EOF when reading a line''
      | TypeError m \<Rightarrow> m
      | UnboundLocalError m \<Rightarrow> m
      | OSError m \<Rightarrow> m)"

definition show_contents :: "string \<Rightarrow> world \<Rightarrow> world" where
  "show_contents gguf_folder w =
     (case listdir gguf_folder (files w) of
        Inl e \<Rightarrow> print (''   Could not list folder contents: '' @ str_exn e) w
      | Inr names \<Rightarrow>
          (case list_sizes gguf_folder (sort names) w of
             (Inl e, w1) \<Rightarrow> print (''   Could not list folder contents: '' @ str_exn e) w1
           | (Inr u, w1) \<Rightarrow> w1))"

text \<open>Lines 235 to 270, the body of the handler of line 272.\<close>

definition move_all :: "string \<Rightarrow> string \<Rightarrow> string \<Rightarrow> string list \<Rightarrow> world \<Rightarrow> (exn + unit) \<times> world" where
  "move_all gguf_folder f16_file output_name successful_quants w =
     (case makedirs gguf_folder (files w) of
        Inl e \<Rightarrow> (Inl e, w)
      | Inr fs \<Rightarrow>
          (case move_one gguf_folder f16_file []
                  (print (''Created folder: '' @ gguf_folder @ ''/'') (w\<lparr>files := fs\<rparr>)) of
             (Inl e, w1) \<Rightarrow> (Inl e, w1)
           | (Inr moved, w1) \<Rightarrow>
               (case move_quants gguf_folder output_name successful_quants moved w1 of
                  (Inl e, w2) \<Rightarrow> (Inl e, w2)
                | (Inr moved_files, w2) \<Rightarrow>
                    (Inr (),
                     show_contents gguf_folder
                       (print (nl # ''Final contents of '' @ gguf_folder @ ''/:'')
                         (print (nl # ''Successfully moved '' @ show_nat (length moved_files)
                                   @ '' GGUF files to '' @ gguf_folder @ ''/'') w2))))))"

text \<open>Lines 231 to 291: the folder is named, the files are moved with every error of the
  move reported and dropped, and the f16 file may be removed on request.\<close>

definition organize :: "string \<Rightarrow> string \<Rightarrow> string list \<Rightarrow> world \<Rightarrow> (exn + unit) \<times> world" where
  "organize f16_file output_name successful_quants w =
     (let gguf_folder = output_name @ ''-GGUF'';
          w1 = (case move_all gguf_folder f16_file output_name successful_quants
                       (print (nl # ''Moving GGUF files to separate folder...'') w) of
                  (Inl e, w') \<Rightarrow>
                    print ''Files remain in current directory''
                      (print (''Failed to create/move files to '' @ gguf_folder @ ''/: '' @ str_exn e) w')
                | (Inr u, w') \<Rightarrow> w');
          f16_in_folder = path_join gguf_folder f16_file in
      if exists f16_in_folder (files w1) \<and> successful_quants \<noteq> [] then
        (case input (nl # ''Remove the f16 base file ('' @ f16_file @ '') from '' @ gguf_folder @ ''/? (y/n): '') w1 of
           (Inl e, w2) \<Rightarrow> (Inl e, w2)
         | (Inr s, w2) \<Rightarrow>
             if lower (strip s) = ''y'' then
               (case remove f16_in_folder (files w2) of
                  Inl e \<Rightarrow> (Inr (), print (''Failed to remove '' @ f16_file @ '': '' @ str_exn e) w2)
                | Inr fs \<Rightarrow>
                    (Inr (), print (''Removed '' @ f16_file @ '' from '' @ gguf_folder @ ''/'')
                               (w2\<lparr>files := fs\<rparr>)))
             else (Inr (), w2))
      else (Inr (), w1))"

text \<open>Reading a local variable of a function: a name that the function assigns somewhere
  is local to it from its first line, and reading it before the assignment raises
  \<^verbatim>\<open>UnboundLocalError\<close>.\<close>

definition read_local :: "string \<Rightarrow> 'a option \<Rightarrow> exn + 'a" where
  "read_local name v =
     (case v of
        None \<Rightarrow>
          Inl (UnboundLocalError (''cannot access local variable '' @ apos @ name @ apos
                 @ '' where it is not associated with a value''))
      | Some x \<Rightarrow> Inr x)"

text \<open>Lines 213 to 224: the summary.\<close>

definition print_summary :: "string \<Rightarrow> string list \<Rightarrow> string list \<Rightarrow> world \<Rightarrow> world" where
  "print_summary output_name successful_quants failed_quants w =
     (let w1 = print (replicate 50 CHR ''='') (print (nl # ''Process completed!'') w);
          w2 = (if successful_quants \<noteq> [] then
                  fold (\<lambda>quant. print (''   - '' @ output_name @ ''-'' @ quant @ ''.gguf''))
                    successful_quants
                    (print (check_mark @ '' Successfully created ''
                              @ show_nat (length successful_quants) @ '' quantized models:'') w1)
                else w1) in
      if failed_quants \<noteq> [] then
        fold (\<lambda>quant. print (''   - '' @ output_name @ ''-'' @ quant @ ''.gguf''))
          failed_quants
          (print (cross_mark @ '' Failed to create ''
                    @ show_nat (length failed_quants) @ '' quantized models:'') w2)
      else w2)"

text \<open>Lines 186 to 291, the body of the handlers of lines 293 and 296. The name
  \<^verbatim>\<open>gguf_folder\<close> is assigned at line 232 only, so at line 228 it is a local without a
  value: \<open>None\<close>.\<close>

definition main_body :: "world \<Rightarrow> (exn + unit) \<times> world" where
  "main_body w =
     (case get_user_input w of
        (Inl e, w1) \<Rightarrow> (Inl e, w1)
      | (Inr (model_path, output_name, selected_quants), w1) \<Rightarrow>
          (case convert_to_gguf model_path output_name
                  (print (nl # ''Step 1: Converting to GGUF format'')
                    (print (''Quantization types: '' @ join '', '' selected_quants)
                      (print (''Output name: '' @ output_name)
                        (print (''Model path: '' @ model_path)
                          (print (nl # ''Starting conversion process...'') w1))))) of
             (Inl e, w2) \<Rightarrow> (Inl e, w2)
           | (Inr None, w2) \<Rightarrow>
               (Inl (SystemExit 1), print (cross_mark @ '' Conversion failed. Exiting.'') w2)
           | (Inr (Some f16_file), w2) \<Rightarrow>
               if f16_file = [] then
                 (Inl (SystemExit 1), print (cross_mark @ '' Conversion failed. Exiting.'') w2)
               else
                 (case getsize f16_file (files w2) of
                    Inl e \<Rightarrow> (Inl e, w2)
                  | Inr f16_size \<Rightarrow>
                      (case quantize_model f16_file output_name selected_quants
                              (print (nl # ''Step 2: Quantizing model'')
                                (print (package_mark @ '' Created '' @ f16_file
                                          @ '' ('' @ fmt_mb f16_size @ '' MB)'') w2)) of
                         (Inl e, w3) \<Rightarrow> (Inl e, w3)
                       | (Inr ReturnedFalse, w3) \<Rightarrow>
                           (Inl (TypeError ''cannot unpack non-iterable bool object''), w3)
                       | (Inr (ReturnedLists successful_quants failed_quants), w3) \<Rightarrow>
                           (let w4 = print (nl # folder_mark @ '' Processing completed successfully!'')
                                       (print_summary output_name successful_quants failed_quants w3) in
                            case read_local ''gguf_folder'' None of
                              Inl e \<Rightarrow> (Inl e, w4)
                            | Inr gguf_folder \<Rightarrow>
                                organize f16_file output_name successful_quants
                                  (print (''All GGUF files have been moved to: '' @ gguf_folder @ ''/'') w4))))))"

text \<open>Lines 183 to 298 and the exit status of the process: 0 when \<^verbatim>\<open>main\<close> returns,
  the argument of \<^verbatim>\<open>sys.exit\<close>, 1 from either handler.\<close>

definition main :: "world \<Rightarrow> int \<times> world" where
  "main w =
     (case main_body w of
        (Inr u, w1) \<Rightarrow> (0, w1)
      | (Inl e, w1) \<Rightarrow>
          (case e of
             SystemExit n \<Rightarrow> (n, w1)
           | KeyboardInterrupt \<Rightarrow> (1, print ([nl, nl] @ ''Process interrupted by user'') w1)
           | _ \<Rightarrow> (1, print (''Unexpected error: '' @ str_exn e) w1)))"

section \<open>Definitions used by the statements\<close>

text \<open>The default output name in the words of the specification: the last segment of
  the model path once its trailing slashes are stripped.\<close>

definition last_segment :: "string \<Rightarrow> string" where
  "last_segment p = last (split CHR ''/'' (rstrip CHR ''/'' p))"

text \<open>Worlds for the examples: a shell whose every command succeeds and changes
  nothing, and a machine that holds the directory \<^verbatim>\<open>my-model\<close> and is typed the given
  lines.\<close>

definition idle_shell:: "string \<Rightarrow> fsys \<Rightarrow> proc \<times> fsys" where
  "idle_shell command fs = (Exited 0, fs)"

definition typed :: "event list \<Rightarrow> world" where
  "typed evs = \<lparr>files = [(''my-model'', Dir 4096)], stdin = evs, stdout = [],
                shell = idle_shell, cmds = []\<rparr>"

text \<open>What a step leaves alone: only the console has changed between two worlds when the
  files, the shell and the commands run are the same and the input left is a suffix of
  the input there was. \<open>input_exn\<close> holds of a result that is a value, or one of the two
  exceptions \<^verbatim>\<open>input\<close> raises.\<close>

definition console_only :: "world \<Rightarrow> world \<Rightarrow> bool" where
  "console_only w w' =
     (files w' = files w \<and> shell w' = shell w \<and> cmds w' = cmds w \<and> suffix (stdin w') (stdin w))"

definition input_exn :: "exn + 'a \<Rightarrow> bool" where
  "input_exn r = (case r of Inl e \<Rightarrow> e = EOFError \<or> e = KeyboardInterrupt | Inr x \<Rightarrow> True)"

text \<open>The quantization step in the words of the specification: each profile, in order,
  has its own command run on the files the previous one left, and its outcome is that the
  command exited with status 0 and the expected file exists; an interrupt ends the list.
  \<open>recorded b\<close> keeps the profiles whose outcome is \<open>b\<close>.\<close>

fun outcomes ::
  "(string \<Rightarrow> fsys \<Rightarrow> proc \<times> fsys) \<Rightarrow> string \<Rightarrow> string \<Rightarrow> string list \<Rightarrow> fsys \<Rightarrow> bool list" where
  "outcomes sh f16_file output_name [] fs = []"
| "outcomes sh f16_file output_name (quant_type # rest) fs =
     (case sh (quantize_command f16_file output_name quant_type) fs of
        (Exited returncode, fs') \<Rightarrow>
          (returncode = 0 \<and> exists (output_name @ ''-'' @ quant_type @ ''.gguf'') fs')
            # outcomes sh f16_file output_name rest fs'
      | (Interrupted, fs') \<Rightarrow> [])"

definition recorded :: "bool \<Rightarrow> string list \<Rightarrow> bool list \<Rightarrow> string list" where
  "recorded b quant_types os = map fst (filter (\<lambda>(q, ok). ok = b) (zip quant_types os))"

text \<open>More worlds for the examples. \<open>tool_shell failing\<close> is a shell where the converter
  writes its output file and the quantizer writes its own unless the profile is in
  \<open>failing\<close>; \<open>once_shell\<close> is a quantizer that refuses to overwrite a file.\<close>

definition tool_shell :: "string list \<Rightarrow> string \<Rightarrow> fsys \<Rightarrow> proc \<times> fsys" where
  "tool_shell failing command fs =
     (case split CHR '' '' command of
        [python, script, model, opt1, outfile, opt2, outtype] \<Rightarrow>
          (Exited 0, (outfile, File 2097152) # fs)
      | [quantizer, f16_file, output_file, quant_type] \<Rightarrow>
          if quant_type \<in> set failing then (Exited 1, fs)
          else (Exited 0, (output_file, File 1048576) # fs)
      | _ \<Rightarrow> (Exited 127, fs))"

definition once_shell :: "string \<Rightarrow> fsys \<Rightarrow> proc \<times> fsys" where
  "once_shell command fs =
     (case split CHR '' '' command of
        [quantizer, f16_file, output_file, quant_type] \<Rightarrow>
          if exists output_file fs then (Exited 1, fs)
          else (Exited 0, (output_file, File 1048576) # fs)
      | _ \<Rightarrow> (Exited 127, fs))"

definition machine :: "fsys \<Rightarrow> (string \<Rightarrow> fsys \<Rightarrow> proc \<times> fsys) \<Rightarrow> event list \<Rightarrow> world" where
  "machine fs sh evs = \<lparr>files = fs, stdin = evs, stdout = [], shell = sh, cmds = []\<rparr>"

definition llama_files :: fsys where
  "llama_files =
     [(''my-model'', Dir 4096),
      (''./llama/convert_hf_to_gguf.py'', File 20000),
      (''./llama/bin/llama-quantize'', File 3000000)]"

definition world_tools :: world where
  "world_tools = machine llama_files (tool_shell [''Q5_K_M'']) []"

definition world_one_profile :: world where
  "world_one_profile = machine llama_files (tool_shell []) [Line ''my-model'', Line [], Line ''2'', Line ''Q4_0'']"

definition world_three_profiles :: world where
  "world_three_profiles = machine llama_files (tool_shell [''Q5_K_M'']) [Line ''my-model'', Line [], Line ''2'', Line ''Q4_0,Q5_K_M,Q8_0'']"

definition world_no_quantizer :: world where
  "world_no_quantizer = machine [(''my-model'', Dir 4096), (''./llama/convert_hf_to_gguf.py'', File 20000)] (tool_shell []) [Line ''my-model'', Line [], Line ''1'']"

definition world_silent_converter :: world where
  "world_silent_converter = machine llama_files idle_shell [Line ''my-model'', Line [], Line ''1'']"

section \<open>The input collector\<close>

lemma fold_print: "fold print xs w = w\<lparr>stdout := stdout w @ xs\<rparr>"
  by (induction xs arbitrary: w) (simp_all add: print_def)

lemma split_not_Nil: "split c s \<noteq> []"
  by (subst split.simps) (simp split: list.splits)

lemma last_split: "last (split c s) = rev (takeWhile (\<lambda>x. x \<noteq> c) (rev s))"
proof (induction c s rule: split.induct)
  case (1 c s)
  show ?case
  proof (cases "dropWhile (\<lambda>x. x \<noteq> c) s")
    case Nil
    then have "\<forall>x\<in>set s. x \<noteq> c" by (simp add: dropWhile_eq_Nil_conv)
    then have tw: "takeWhile (\<lambda>x. x \<noteq> c) (rev s) = rev s"
      by (simp add: takeWhile_eq_all_conv)
    have sp: "split c s = [s]"
      by (subst split.simps, subst Nil) simp
    show ?thesis unfolding sp tw by simp
  next
    case (Cons x rest)
    then have x: "x = c" using hd_dropWhile [of "\<lambda>x. x \<noteq> c" s] by force
    have s: "s = takeWhile (\<lambda>x. x \<noteq> c) s @ c # rest"
      using takeWhile_dropWhile_id [of "\<lambda>x. x \<noteq> c" s] Cons x by simp
    have "rev s = rev rest @ c # rev (takeWhile (\<lambda>x. x \<noteq> c) s)"
      by (subst s) simp
    then have "takeWhile (\<lambda>x. x \<noteq> c) (rev s) = takeWhile (\<lambda>x. x \<noteq> c) (rev rest)"
      by (simp add: takeWhile_tail)
    moreover have "split c s = takeWhile (\<lambda>x. x \<noteq> c) s # split c rest"
      by (subst split.simps, subst Cons) simp
    ultimately show ?thesis using "1.IH" [OF Cons] by (simp add: split_not_Nil)
  qed
qed

lemma select_quants_eof:
  "stdin w = [] \<Longrightarrow> \<exists>w'. select_quants w = (Inl EOFError, w')"
  by (subst select_quants.simps) (simp add: input_def)

lemma select_quants_interrupt:
  "stdin w = Interrupt # rest \<Longrightarrow> \<exists>w'. select_quants w = (Inl KeyboardInterrupt, w')"
  by (subst select_quants.simps) (simp add: input_def)

lemma select_quants_empty:
  "stdin w = Line s # rest \<Longrightarrow> strip s = [] \<Longrightarrow>
   \<exists>w'. select_quants w = (Inr QUANTIZATION_TYPES, w')"
  by (subst select_quants.simps) (simp add: input_def Let_def)

lemma select_quants_one:
  "stdin w = Line s # rest \<Longrightarrow> strip s = ''1'' \<Longrightarrow>
   \<exists>w'. select_quants w = (Inr QUANTIZATION_TYPES, w')"
  by (subst select_quants.simps) (simp add: input_def Let_def)

lemma select_quants_other:
  "stdin w = Line s # rest \<Longrightarrow> strip s \<noteq> [] \<Longrightarrow> strip s \<noteq> ''1'' \<Longrightarrow> strip s \<noteq> ''2'' \<Longrightarrow>
   \<exists>w'. select_quants w = select_quants w' \<and> stdin w' = rest"
  apply (subst select_quants.simps)
  apply (simp add: input_def Let_def)
  apply (rule exI, rule conjI, rule refl)
  apply simp
  done

lemma select_quants_two_eof:
  "stdin w = [Line s] \<Longrightarrow> strip s = ''2'' \<Longrightarrow> \<exists>w'. select_quants w = (Inl EOFError, w')"
  by (subst select_quants.simps) (simp add: input_def Let_def)

lemma select_quants_two_interrupt:
  "stdin w = Line s # Interrupt # rest \<Longrightarrow> strip s = ''2'' \<Longrightarrow>
   \<exists>w'. select_quants w = (Inl KeyboardInterrupt, w')"
  by (subst select_quants.simps) (simp add: input_def Let_def)

lemma select_quants_two_empty:
  "stdin w = Line s # Line t # rest \<Longrightarrow> strip s = ''2'' \<Longrightarrow> strip t = [] \<Longrightarrow>
   \<exists>w'. select_quants w = (Inr QUANTIZATION_TYPES, w')"
  by (subst select_quants.simps) (simp add: input_def Let_def)

lemma select_quants_two_invalid:
  "stdin w = Line s # Line t # rest \<Longrightarrow> strip s = ''2'' \<Longrightarrow> strip t \<noteq> [] \<Longrightarrow>
   invalid_types_of (custom_types_of (strip t)) \<noteq> [] \<Longrightarrow>
   \<exists>w'. select_quants w = select_quants w' \<and> stdin w' = rest"
  apply (subst select_quants.simps)
  apply (simp add: input_def Let_def)
  apply (rule exI, rule conjI, rule refl)
  apply simp
  done

lemma select_quants_two_valid:
  "stdin w = Line s # Line t # rest \<Longrightarrow> strip s = ''2'' \<Longrightarrow> strip t \<noteq> [] \<Longrightarrow>
   invalid_types_of (custom_types_of (strip t)) = [] \<Longrightarrow>
   \<exists>w'. select_quants w = (Inr (custom_types_of (strip t)), w')"
  by (subst select_quants.simps) (simp add: input_def Let_def)

lemma select_quants_result:
  "select_quants w = (Inr qs, w') \<Longrightarrow>
   qs = QUANTIZATION_TYPES \<or>
   (\<exists>t. Line t \<in> set (stdin w) \<and> strip t \<noteq> [] \<and> qs = custom_types_of (strip t) \<and>
        invalid_types_of qs = [])"
proof (induction "length (stdin w)" arbitrary: w rule: less_induct)
  case less
  let ?P = "\<lambda>w. qs = QUANTIZATION_TYPES \<or>
   (\<exists>t. Line t \<in> set (stdin w) \<and> strip t \<noteq> [] \<and> qs = custom_types_of (strip t) \<and>
        invalid_types_of qs = [])"
  have again: "?P w" if "select_quants w = select_quants w1" "stdin w = xs @ stdin w1" "xs \<noteq> []" for w1 xs
  proof -
    have "?P w1" using less.hyps [of w1] less.prems that by (cases xs) auto
    then show ?thesis using that by auto
  qed
  show ?case
  proof (cases "stdin w")
    case Nil
    then show ?thesis using select_quants_eof [of w] less.prems by auto
  next
    case (Cons ev rest)
    show ?thesis
    proof (cases ev)
      case Interrupt
      then show ?thesis using select_quants_interrupt [of w rest] Cons less.prems by auto
    next
      case (Line s)
      then have sw: "stdin w = Line s # rest" using Cons by simp
      consider (empty) "strip s = []" | (one) "strip s = ''1''" | (two) "strip s = ''2''"
        | (other) "strip s \<noteq> []" "strip s \<noteq> ''1''" "strip s \<noteq> ''2''"
        by fastforce
      then show ?thesis
      proof cases
        case empty
        then show ?thesis using select_quants_empty [OF sw] less.prems by auto
      next
        case one
        then show ?thesis using select_quants_one [OF sw] less.prems by auto
      next
        case other
        then obtain w1 where "select_quants w = select_quants w1" "stdin w1 = rest"
          using select_quants_other [OF sw] by auto
        then show ?thesis using again [of w1 "[Line s]"] sw by simp
      next
        case two
        show ?thesis
        proof (cases rest)
          case Nil
          then show ?thesis using select_quants_two_eof [of w s] two sw less.prems by auto
        next
          case (Cons ev2 rest2)
          show ?thesis
          proof (cases ev2)
            case Interrupt
            then show ?thesis
              using select_quants_two_interrupt [of w s rest2] two sw Cons less.prems by auto
          next
            case (Line t)
            then have sw2: "stdin w = Line s # Line t # rest2" using sw Cons by simp
            show ?thesis
            proof (cases "strip t = []")
              case True
              then show ?thesis using select_quants_two_empty [OF sw2 two] less.prems by auto
            next
              case ne: False
              show ?thesis
              proof (cases "invalid_types_of (custom_types_of (strip t)) = []")
                case True
                then have "qs = custom_types_of (strip t)"
                  using select_quants_two_valid [OF sw2 two ne] less.prems by auto
                then show ?thesis using True ne sw2 by auto
              next
                case False
                then obtain w1 where "select_quants w = select_quants w1" "stdin w1 = rest2"
                  using select_quants_two_invalid [OF sw2 two ne] by auto
                then show ?thesis using again [of w1 "[Line s, Line t]"] sw2 by simp
              qed
            qed
          qed
        qed
      qed
    qed
  qed
qed

lemma custom_types_of_not_Nil: "custom_types_of s \<noteq> []"
  by (simp add: custom_types_of_def split_not_Nil)

lemma invalid_types_of_Nil: "invalid_types_of qs = [] \<longleftrightarrow> set qs \<subseteq> set QUANTIZATION_TYPES"
  by (auto simp: invalid_types_of_def filter_empty_conv)

lemma QT_not_Nil: "QUANTIZATION_TYPES \<noteq> []"
  by (simp add: QUANTIZATION_TYPES_def)

lemma distinct_QT: "distinct QUANTIZATION_TYPES"
  by (simp add: QUANTIZATION_TYPES_def)

lemma select_quants_sound:
  assumes "select_quants w = (Inr qs, w')"
  shows "qs \<noteq> [] \<and> set qs \<subseteq> set QUANTIZATION_TYPES"
  using select_quants_result [OF assms] custom_types_of_not_Nil QT_not_Nil
  by (auto simp: invalid_types_of_Nil)

lemma input_suffix: "input p w = (r, w') \<Longrightarrow> suffix (stdin w') (stdin w)"
  by (auto simp: input_def suffix_def split: list.splits event.splits)

lemma ask_model_path_suffix:
  "ask_model_path w = (r, w') \<Longrightarrow> suffix (stdin w') (stdin w)"
proof (induction "length (stdin w)" arbitrary: w rule: less_induct)
  case less
  obtain x w1 where i1: "input (nl # ''Enter the model directory path (e.g., 'my-model'): '') w = (x, w1)"
    by (cases "input (nl # ''Enter the model directory path (e.g., 'my-model'): '') w")
  note s1 = input_suffix [OF i1]
  show ?case
  proof (cases x)
    case (Inl e)
    then show ?thesis using less.prems i1 s1 by (subst (asm) ask_model_path.simps) simp
  next
    case (Inr s)
    then have l1: "length (stdin w1) < length (stdin w)"
      using input_Inr_shorter i1 by blast
    show ?thesis
    proof (cases "strip s = []")
      case True
      then have "ask_model_path w = ask_model_path (print ''Model path cannot be empty'' w1)"
        using i1 Inr by (subst ask_model_path.simps) simp
      then have "suffix (stdin w') (stdin (print ''Model path cannot be empty'' w1))"
        using less.hyps [of "print ''Model path cannot be empty'' w1"] l1 less.prems by simp
      then show ?thesis using s1 by (auto intro: suffix_order.trans)
    next
      case ne: False
      show ?thesis
      proof (cases "exists (strip s) (files w1)")
        case True
        then show ?thesis using less.prems i1 Inr ne s1
          by (subst (asm) ask_model_path.simps) (simp add: Let_def)
      next
        case False
        obtain y w2 where i2: "input ''Continue anyway? (y/n): ''
             (print (''Warning: Directory '' @ apos @ strip s @ apos @ '' does not exist'') w1) = (y, w2)"
          by (cases "input ''Continue anyway? (y/n): ''
             (print (''Warning: Directory '' @ apos @ strip s @ apos @ '' does not exist'') w1)")
        have s2: "suffix (stdin w2) (stdin w)"
          using input_suffix [OF i2] s1 by (auto intro: suffix_order.trans)
        show ?thesis
        proof (cases y)
          case (Inl e)
          then show ?thesis using less.prems i1 Inr ne False i2 s2
            by (subst (asm) ask_model_path.simps) (simp add: Let_def)
        next
          case r2: (Inr c)
          have l2: "length (stdin w2) < length (stdin w)"
            using input_Inr_shorter [of _ _ c w2] i2 r2 l1 by fastforce
          show ?thesis
          proof (cases "lower (strip c) = ''y''")
            case True
            then show ?thesis using less.prems i1 Inr ne False i2 r2 s2
              by (subst (asm) ask_model_path.simps) (simp add: Let_def)
          next
            case no: False
            have "ask_model_path w = ask_model_path w2"
              using i1 Inr ne False i2 r2 no by (subst ask_model_path.simps) (simp add: Let_def)
            then have "suffix (stdin w') (stdin w2)"
              using less.hyps [of w2] l2 less.prems by simp
            then show ?thesis using s2 by (auto intro: suffix_order.trans)
          qed
        qed
      qed
    qed
  qed
qed

lemma ask_output_name_suffix:
  "ask_output_name p w = (r, w') \<Longrightarrow> suffix (stdin w') (stdin w)"
  by (auto simp: ask_output_name_def Let_def split: prod.splits sum.splits dest: input_suffix)

lemma get_user_input_select:
  assumes "get_user_input w = (Inr (model_path, output_name, qs), w')"
  shows "\<exists>w3. select_quants w3 = (Inr qs, w') \<and> suffix (stdin w3) (stdin w)"
proof -
  let ?w0 = "print (replicate 50 CHR ''='') (print ''Llama.cpp Model Converter and Quantizer'' w)"
  obtain r1 w1 where a1: "ask_model_path ?w0 = (r1, w1)" by (cases "ask_model_path ?w0")
  then obtain mp where r1: "r1 = Inr mp"
    using assms by (cases r1) (simp_all add: get_user_input_def)
  obtain r2 w2 where a2: "ask_output_name mp w1 = (r2, w2)" by (cases "ask_output_name mp w1")
  then obtain on where r2: "r2 = Inr on"
    using assms a1 r1 by (cases r2) (simp_all add: get_user_input_def)
  let ?w3 = "print ''2. Select specific quantization types''
                         (print ''1. Convert to ALL quantization types (default)''
                           (print (nl # ''Options:'')
                             (print (''Available types: '' @ join '', '' QUANTIZATION_TYPES)
                               (print (nl # ''Quantization options:'') w2))))"
  have "select_quants ?w3 = (Inr qs, w')"
    using assms a1 r1 a2 r2
    by (simp add: get_user_input_def split: prod.splits sum.splits)
  moreover have "suffix (stdin ?w3) (stdin w)"
    using ask_model_path_suffix [OF a1] ask_output_name_suffix [OF a2]
    by (auto intro: suffix_order.trans)
  ultimately show ?thesis by blast
qed

lemmas run_simps =
  get_user_input_def ask_model_path.simps ask_output_name_def select_quants.simps split.simps
  input_def print_def print_numbered_def fold_print Let_def strip_def isspace_def exists_def
  rstrip_def basename_def custom_types_of_def invalid_types_of_def QUANTIZATION_TYPES_def
  upper_def upper_char_def lower_def lower_char_def typed_def idle_shell_def

text \<open>C6: in mode 2, a typed list that is not empty and holds at least one name outside the
  fixed set is rejected as a whole: the loop prints the offending names and the valid set
  and starts again on the rest of the input, so that nothing of the list is accepted.\<close>

theorem invalid_name_rejects_selection:
  assumes "stdin w = Line c # Line t # rest"
    and "strip c = ''2''"
    and "strip t \<noteq> []"
    and "\<not> set (custom_types_of (strip t)) \<subseteq> set QUANTIZATION_TYPES"
  shows "select_quants w =
           select_quants
             (w\<lparr>stdin := rest,
                stdout := stdout w
                  @ [nl # ''Select option (1-2, or press Enter for default): '',
                     nl # ''Available quantization types:'']
                  @ numbered QUANTIZATION_TYPES
                  @ [nl # ''Enter quantization types (comma-separated, e.g., 'Q4_K_M,Q5_K_M'):'',
                     ''Types: '',
                     cross_mark @ '' Invalid quantization types: ''
                       @ join '', '' (filter (\<lambda>t. t \<notin> set QUANTIZATION_TYPES) (custom_types_of (strip t))),
                     ''Valid types: '' @ join '', '' QUANTIZATION_TYPES]\<rparr>)"
proof -
  have inv: "invalid_types_of (custom_types_of (strip t)) \<noteq> []"
    using assms(4) by (simp add: invalid_types_of_Nil)
  show ?thesis
    apply (subst select_quants.simps)
    using assms(1-3) inv
    apply (simp add: input_def Let_def print_numbered_def fold_print)
    apply (simp add: print_def invalid_types_of_def)
    done
qed

theorem invalid_name_rejects_selection_witness:
  "stdin (typed [Line ''2'', Line ''Q4_0,bogus'', Line ''1''])
     = Line ''2'' # Line ''Q4_0,bogus'' # [Line ''1'']
   \<and> strip ''2'' = ''2''
   \<and> strip ''Q4_0,bogus'' \<noteq> []
   \<and> invalid_types_of (custom_types_of (strip ''Q4_0,bogus'')) = [''BOGUS'']
   \<and> select_quants (typed [Line ''2'', Line ''Q4_0,bogus'', Line ''1'']) =
       select_quants
         ((typed [Line ''2'', Line ''Q4_0,bogus'', Line ''1''])\<lparr>stdin := [Line ''1''],
            stdout := stdout (typed [Line ''2'', Line ''Q4_0,bogus'', Line ''1''])
              @ [nl # ''Select option (1-2, or press Enter for default): '',
                 nl # ''Available quantization types:'']
              @ numbered QUANTIZATION_TYPES
              @ [nl # ''Enter quantization types (comma-separated, e.g., 'Q4_K_M,Q5_K_M'):'',
                 ''Types: '',
                 cross_mark @ '' Invalid quantization types: '' @ join '', '' [''BOGUS''],
                 ''Valid types: '' @ join '', '' QUANTIZATION_TYPES]\<rparr>)"
proof -
  let ?w = "typed [Line ''2'', Line ''Q4_0,bogus'', Line ''1'']"
  have s: "stdin ?w = Line ''2'' # Line ''Q4_0,bogus'' # [Line ''1'']" by (simp add: typed_def)
  have c: "strip ''2'' = ''2''" by code_simp
  have t: "strip ''Q4_0,bogus'' \<noteq> []" by code_simp
  have i: "invalid_types_of (custom_types_of (strip ''Q4_0,bogus'')) = [''BOGUS'']" by code_simp
  then have n: "\<not> set (custom_types_of (strip ''Q4_0,bogus'')) \<subseteq> set QUANTIZATION_TYPES"
    using invalid_types_of_Nil [of "custom_types_of (strip ''Q4_0,bogus'')"] by simp
  show ?thesis
    using invalid_name_rejects_selection [OF s c t n] s c t i
    by (simp add: invalid_types_of_def)
qed

text \<open>C7 (amended): the list the collector returns is the whole fixed list, which has no
  duplicates, or exactly the names of a typed line, stripped and in upper case, in the order
  typed; a name typed twice is returned twice.\<close>

theorem selection_as_typed:
  assumes "get_user_input w = (Inr (model_path, output_name, qs), w')"
  shows "(qs = QUANTIZATION_TYPES \<and> distinct qs) \<or>
         (\<exists>t. Line t \<in> set (stdin w) \<and> qs = custom_types_of (strip t))"
proof -
  obtain w3 where w3: "select_quants w3 = (Inr qs, w')" "suffix (stdin w3) (stdin w)"
    using get_user_input_select [OF assms] by blast
  have "set (stdin w3) \<subseteq> set (stdin w)"
    using w3(2) by (rule set_mono_suffix)
  then show ?thesis
    using select_quants_result [OF w3(1)] distinct_QT by blast
qed

theorem selection_as_typed_witness:
  "fst (get_user_input (typed [Line ''my-model'', Line [], Line ''2'', Line ''Q4_0,bad'', Line ''2'', Line ''q6_k,Q4_0'']))
     = Inr (''my-model'', ''my-model'', [''Q6_K'', ''Q4_0''])
   \<and> (([''Q6_K'', ''Q4_0''] = QUANTIZATION_TYPES \<and> distinct [''Q6_K'', ''Q4_0'']) \<or>
      (\<exists>t. Line t \<in> set (stdin (typed [Line ''my-model'', Line [], Line ''2'', Line ''Q4_0,bad'', Line ''2'', Line ''q6_k,Q4_0'']))
           \<and> [''Q6_K'', ''Q4_0''] = custom_types_of (strip t)))"
proof -
  let ?w = "typed [Line ''my-model'', Line [], Line ''2'', Line ''Q4_0,bad'', Line ''2'', Line ''q6_k,Q4_0'']"
  have h: "fst (get_user_input ?w) = Inr (''my-model'', ''my-model'', [''Q6_K'', ''Q4_0''])"
    by (simp add: run_simps)
  then have "get_user_input ?w
      = (Inr (''my-model'', ''my-model'', [''Q6_K'', ''Q4_0'']), snd (get_user_input ?w))"
    by (simp add: prod_eq_iff)
  from selection_as_typed [OF this] h show ?thesis by simp
qed

text \<open>The claim as stated fails: the line \<^verbatim>\<open>Q4_0,Q4_0\<close> is accepted and returned with its
  duplicate.\<close>

theorem duplicate_selection_accepted:
  "(case fst (get_user_input (typed [Line ''my-model'', Line [], Line ''2'', Line ''Q4_0,Q4_0''])) of
      Inl e \<Rightarrow> False
    | Inr (model_path, output_name, selected_quants) \<Rightarrow>
        selected_quants = [''Q4_0'', ''Q4_0''] \<and> \<not> distinct selected_quants)"
  by (simp add: run_simps)

text \<open>C8: an empty line at the mode prompt does what the line \<^verbatim>\<open>1\<close> does, result and
  output alike: the whole fixed list is selected, and it has 12 names.\<close>

theorem empty_choice_is_mode_1:
  "select_quants (w\<lparr>stdin := Line '''' # rest\<rparr>) = select_quants (w\<lparr>stdin := Line ''1'' # rest\<rparr>)
   \<and> fst (select_quants (w\<lparr>stdin := Line '''' # rest\<rparr>)) = Inr QUANTIZATION_TYPES
   \<and> length QUANTIZATION_TYPES = 12"
  apply (subst (1 2 3) select_quants.simps)
  apply (simp add: input_def Let_def strip_def print_def)
  apply (simp add: QUANTIZATION_TYPES_def)
  done

text \<open>C9: with the next line typed being \<open>s\<close>, the prompt shows as default the last segment
  of the model path without its trailing slashes, and the name returned is that default
  when \<open>s\<close> is empty after stripping (otherwise \<open>s\<close> stripped).\<close>

theorem default_output_name:
  assumes "stdin w = Line s # rest"
  shows "ask_output_name model_path w =
           (Inr (if strip s = [] then last_segment model_path else strip s),
            w\<lparr>stdin := rest,
              stdout := stdout w @ [nl # ''Enter output filename prefix (default: '' @ apos
                                      @ last_segment model_path @ apos @ ''): '']\<rparr>)"
  using assms
  by (simp add: ask_output_name_def input_def Let_def last_segment_def last_split basename_def print_def)

theorem default_output_name_witness:
  "stdin (typed [Line []]) = Line [] # []
   \<and> fst (ask_output_name ''my-model/'' (typed [Line []])) = Inr ''my-model''
   \<and> fst (ask_output_name ''my-model'' (typed [Line []])) = Inr ''my-model''
   \<and> fst (ask_output_name ''models/my-model//'' (typed [Line []])) = Inr ''my-model''"
proof -
  have s: "stdin (typed [Line []]) = Line [] # []" by (simp add: typed_def)
  have a: "last_segment ''my-model/'' = ''my-model''" by code_simp
  have b: "last_segment ''my-model'' = ''my-model''" by code_simp
  have c: "last_segment ''models/my-model//'' = ''my-model''" by code_simp
  have e: "strip [] = []" by (simp add: strip_def)
  show ?thesis
    using default_output_name [OF s, of "''my-model/''"]
      default_output_name [OF s, of "''my-model''"]
      default_output_name [OF s, of "''models/my-model//''"]
    by (simp add: a b c e s)
qed

text \<open>C10: whenever the collector returns, the selected list is not empty and all its names
  are in the fixed list.\<close>

theorem selection_is_valid:
  assumes "get_user_input w = (Inr (model_path, output_name, qs), w')"
  shows "qs \<noteq> [] \<and> set qs \<subseteq> set QUANTIZATION_TYPES"
  using get_user_input_select [OF assms] select_quants_sound by blast

theorem selection_is_valid_witness:
  "fst (get_user_input (typed [Line ''my-model'', Line [], Line ''2'', Line ''q4_k_m, q8_0'']))
     = Inr (''my-model'', ''my-model'', [''Q4_K_M'', ''Q8_0''])
   \<and> [''Q4_K_M'', ''Q8_0''] \<noteq> []
   \<and> set [''Q4_K_M'', ''Q8_0''] \<subseteq> set QUANTIZATION_TYPES"
proof -
  let ?w = "typed [Line ''my-model'', Line [], Line ''2'', Line ''q4_k_m, q8_0'']"
  have h: "fst (get_user_input ?w) = Inr (''my-model'', ''my-model'', [''Q4_K_M'', ''Q8_0''])"
    by (simp add: run_simps)
  then have "get_user_input ?w
      = (Inr (''my-model'', ''my-model'', [''Q4_K_M'', ''Q8_0'']), snd (get_user_input ?w))"
    by (simp add: prod_eq_iff)
  from selection_is_valid [OF this] h show ?thesis by simp
qed

section \<open>The steps and the process\<close>

lemma print_fields [simp]:
  "files (print s w) = files w" "shell (print s w) = shell w" "cmds (print s w) = cmds w"
  by (simp_all add: print_def)

lemma console_only_refl [simp]: "console_only w w"
  by (simp add: console_only_def)

lemma console_only_trans: "console_only w w1 \<Longrightarrow> console_only w1 w2 \<Longrightarrow> console_only w w2"
  by (auto simp: console_only_def intro: suffix_order.trans)

lemma console_only_print [simp]:
  "console_only w (print s w1) = console_only w w1"
  "console_only (print s w) w1 = console_only w w1"
  by (simp_all add: console_only_def)

lemma console_only_print_numbered [simp]:
  "console_only w (print_numbered qs w1) = console_only w w1"
  "console_only (print_numbered qs w) w1 = console_only w w1"
  by (simp_all add: console_only_def print_numbered_def fold_print)

lemma input_console:
  "input p w = (r, w') \<Longrightarrow> console_only w w' \<and> input_exn r"
  by (auto simp: input_def console_only_def input_exn_def suffix_def split: list.splits event.splits)

lemma input_exn_Inr [simp]: "input_exn (Inr x)"
  by (simp add: input_exn_def)

lemma ask_model_path_step:
  assumes "ask_model_path w = (r, w')"
  shows "(console_only w w' \<and> input_exn r) \<or>
         (\<exists>w2. ask_model_path w2 = (r, w') \<and> console_only w w2 \<and> length (stdin w2) < length (stdin w))"
proof -
  obtain x w1 where i1: "input (nl # ''Enter the model directory path (e.g., 'my-model'): '') w = (x, w1)"
    by (cases "input (nl # ''Enter the model directory path (e.g., 'my-model'): '') w")
  note c1 = input_console [OF i1]
  show ?thesis
  proof (cases x)
    case (Inl e)
    then have "r = x \<and> w' = w1" using assms i1 by (subst (asm) ask_model_path.simps) simp
    then show ?thesis using c1 by simp
  next
    case (Inr s)
    then have l1: "length (stdin w1) < length (stdin w)"
      using input_Inr_shorter i1 by blast
    show ?thesis
    proof (cases "strip s = []")
      case True
      then have "ask_model_path (print ''Model path cannot be empty'' w1) = (r, w')"
        using assms i1 Inr by (subst (asm) ask_model_path.simps) simp
      then show ?thesis using c1 l1 by (intro disjI2 exI [of _ "print ''Model path cannot be empty'' w1"]) simp
    next
      case ne: False
      show ?thesis
      proof (cases "exists (strip s) (files w1)")
        case True
        then have "r = Inr (strip s) \<and> w' = w1" using assms i1 Inr ne
          by (subst (asm) ask_model_path.simps) (auto simp: Let_def)
        then show ?thesis using c1 by simp
      next
        case False
        obtain y w2 where i2: "input ''Continue anyway? (y/n): ''
             (print (''Warning: Directory '' @ apos @ strip s @ apos @ '' does not exist'') w1) = (y, w2)"
          by (cases "input ''Continue anyway? (y/n): ''
             (print (''Warning: Directory '' @ apos @ strip s @ apos @ '' does not exist'') w1)")
        have c2: "console_only w w2" "input_exn y"
          using input_console [OF i2] c1 console_only_trans [of w w1 w2] by simp_all
        show ?thesis
        proof (cases y)
          case (Inl e)
          then have "r = y \<and> w' = w2" using assms i1 Inr ne False i2
            by (subst (asm) ask_model_path.simps) (auto simp: Let_def)
          then show ?thesis using c2 by simp
        next
          case r2: (Inr c)
          have l2: "length (stdin w2) < length (stdin w)"
            using input_Inr_shorter [of _ _ c w2] i2 r2 l1 by fastforce
          show ?thesis
          proof (cases "lower (strip c) = ''y''")
            case True
            then have "r = Inr (strip s) \<and> w' = w2" using assms i1 Inr ne False i2 r2
              by (subst (asm) ask_model_path.simps) (auto simp: Let_def)
            then show ?thesis using c2 by simp
          next
            case no: False
            have "ask_model_path w2 = (r, w')"
              using assms i1 Inr ne False i2 r2 no
              by (subst (asm) ask_model_path.simps) (auto simp: Let_def)
            then show ?thesis using c2 l2 by blast
          qed
        qed
      qed
    qed
  qed
qed

lemma ask_model_path_console:
  "ask_model_path w = (r, w') \<Longrightarrow> console_only w w' \<and> input_exn r"
proof (induction "length (stdin w)" arbitrary: w rule: less_induct)
  case less
  from ask_model_path_step [OF less.prems] show ?case
  proof
    assume "console_only w w' \<and> input_exn r"
    then show ?thesis .
  next
    assume "\<exists>w2. ask_model_path w2 = (r, w') \<and> console_only w w2 \<and> length (stdin w2) < length (stdin w)"
    then obtain w2 where w2: "ask_model_path w2 = (r, w')" "console_only w w2"
      "length (stdin w2) < length (stdin w)" by blast
    from less.hyps [OF w2(3) w2(1)] w2(2) show ?thesis
      by (auto intro: console_only_trans)
  qed
qed

lemma select_quants_step:
  assumes "select_quants w = (r, w')"
  shows "(console_only w w' \<and> input_exn r) \<or>
         (\<exists>w2. select_quants w2 = (r, w') \<and> console_only w w2 \<and> length (stdin w2) < length (stdin w))"
proof -
  obtain x w1 where i1: "input (nl # ''Select option (1-2, or press Enter for default): '') w = (x, w1)"
    by (cases "input (nl # ''Select option (1-2, or press Enter for default): '') w")
  note c1 = input_console [OF i1]
  show ?thesis
  proof (cases x)
    case (Inl e)
    then have "r = Inl e \<and> w' = w1" using assms i1 by (subst (asm) select_quants.simps) simp
    then show ?thesis using c1 Inl by (simp add: input_exn_def)
  next
    case (Inr s)
    then have l1: "length (stdin w1) < length (stdin w)"
      using input_Inr_shorter i1 by blast
    consider (all) "strip s = [] \<or> strip s = ''1''" | (two) "strip s = ''2''"
      | (other) "strip s \<noteq> []" "strip s \<noteq> ''1''" "strip s \<noteq> ''2''"
      by fastforce
    then show ?thesis
    proof cases
      case all
      then have "\<exists>t. r = Inr QUANTIZATION_TYPES \<and> w' = print t w1"
        using assms i1 Inr by (subst (asm) select_quants.simps) (auto simp: Let_def)
      then show ?thesis using c1 by auto
    next
      case other
      then have "\<exists>t. select_quants (print t w1) = (r, w')"
        using assms i1 Inr by (subst (asm) select_quants.simps) (auto simp: Let_def)
      then obtain t where "select_quants (print t w1) = (r, w')" by blast
      then show ?thesis using c1 l1 by (intro disjI2 exI [of _ "print t w1"]) simp
    next
      case two
      let ?w2 = "print (nl # ''Enter quantization types (comma-separated, e.g., 'Q4_K_M,Q5_K_M'):'')
                         (print_numbered QUANTIZATION_TYPES
                           (print (nl # ''Available quantization types:'') w1))"
      obtain y w3 where i2: "input ''Types: '' ?w2 = (y, w3)"
        by (cases "input ''Types: '' ?w2")
      have c2: "console_only w w3" "input_exn y"
        using input_console [OF i2] c1 console_only_trans [of w w1 w3] by simp_all
      show ?thesis
      proof (cases y)
        case (Inl e)
        then have "r = Inl e \<and> w' = w3" using assms i1 Inr two i2
          by (subst (asm) select_quants.simps) (auto simp: Let_def)
        then show ?thesis using c2 Inl by (simp add: input_exn_def)
      next
        case r2: (Inr t)
        have l2: "length (stdin w3) < length (stdin w)"
          using input_Inr_shorter [of _ _ t w3] i2 r2 l1 by fastforce
        consider (empty) "strip t = []"
          | (invalid) "strip t \<noteq> []" "invalid_types_of (custom_types_of (strip t)) \<noteq> []"
          | (valid) "strip t \<noteq> []" "invalid_types_of (custom_types_of (strip t)) = []"
          by blast
        then show ?thesis
        proof cases
          case empty
          then have "\<exists>t. r = Inr QUANTIZATION_TYPES \<and> w' = print t w3"
            using assms i1 Inr two i2 r2 by (subst (asm) select_quants.simps) (auto simp: Let_def)
          then show ?thesis using c2 by auto
        next
          case valid
          then have "\<exists>t'. r = Inr (custom_types_of (strip t)) \<and> w' = print t' w3"
            using assms i1 Inr two i2 r2 by (subst (asm) select_quants.simps) (auto simp: Let_def)
          then show ?thesis using c2 by auto
        next
          case invalid
          then have "\<exists>a b. select_quants (print a (print b w3)) = (r, w')"
            using assms i1 Inr two i2 r2 by (subst (asm) select_quants.simps) (auto simp: Let_def)
          then obtain a b where "select_quants (print a (print b w3)) = (r, w')" by blast
          then show ?thesis using c2 l2 by (intro disjI2 exI [of _ "print a (print b w3)"]) simp
        qed
      qed
    qed
  qed
qed

lemma select_quants_console:
  "select_quants w = (r, w') \<Longrightarrow> console_only w w' \<and> input_exn r"
proof (induction "length (stdin w)" arbitrary: w rule: less_induct)
  case less
  from select_quants_step [OF less.prems] show ?case
  proof
    assume "console_only w w' \<and> input_exn r"
    then show ?thesis .
  next
    assume "\<exists>w2. select_quants w2 = (r, w') \<and> console_only w w2 \<and> length (stdin w2) < length (stdin w)"
    then obtain w2 where w2: "select_quants w2 = (r, w')" "console_only w w2"
      "length (stdin w2) < length (stdin w)" by blast
    from less.hyps [OF w2(3) w2(1)] w2(2) show ?thesis
      by (auto intro: console_only_trans)
  qed
qed

lemma ask_output_name_console:
  "ask_output_name p w = (r, w') \<Longrightarrow> console_only w w' \<and> input_exn r"
  by (auto simp: ask_output_name_def Let_def split: prod.splits sum.splits dest: input_console)

lemma input_exn_Inl: "input_exn (Inl e) \<Longrightarrow> input_exn (Inl e :: exn + 'b)"
  by (simp add: input_exn_def)

lemma get_user_input_console:
  assumes "get_user_input w = (r, w')"
  shows "console_only w w' \<and> input_exn r"
proof -
  let ?w0 = "print (replicate 50 CHR ''='') (print ''Llama.cpp Model Converter and Quantizer'' w)"
  obtain r1 w1 where a1: "ask_model_path ?w0 = (r1, w1)" by (cases "ask_model_path ?w0")
  note c1 = ask_model_path_console [OF a1]
  show ?thesis
  proof (cases r1)
    case (Inl e)
    then have "r = Inl e \<and> w' = w1" using assms a1 by (simp add: get_user_input_def)
    then show ?thesis using c1 Inl by (simp add: input_exn_def)
  next
    case (Inr mp)
    obtain r2 w2 where a2: "ask_output_name mp w1 = (r2, w2)" by (cases "ask_output_name mp w1")
    note c2 = ask_output_name_console [OF a2]
    show ?thesis
    proof (cases r2)
      case (Inl e)
      then have "r = Inl e \<and> w' = w2" using assms a1 Inr a2 by (simp add: get_user_input_def)
      then show ?thesis using c1 c2 Inl by (auto simp: input_exn_def intro: console_only_trans)
    next
      case on: (Inr on)
      let ?w3 = "print ''2. Select specific quantization types''
                         (print ''1. Convert to ALL quantization types (default)''
                           (print (nl # ''Options:'')
                             (print (''Available types: '' @ join '', '' QUANTIZATION_TYPES)
                               (print (nl # ''Quantization options:'') w2))))"
      obtain r3 w3 where a3: "select_quants ?w3 = (r3, w3)" by (cases "select_quants ?w3")
      have c3: "console_only w w3" "input_exn r3"
        using select_quants_console [OF a3] c1 c2
          console_only_trans [of w w1 w2] console_only_trans [of w w2 w3] by simp_all
      have "w' = w3 \<and> (case r3 of Inl e \<Rightarrow> r = Inl e | Inr qs \<Rightarrow> r = Inr (mp, on, qs))"
        using assms a1 Inr a2 on a3 by (simp add: get_user_input_def split: sum.splits)
      then show ?thesis using c3 by (auto simp: input_exn_def split: sum.splits)
    qed
  qed
qed

lemma run_command_cases:
  assumes "run_command c d w = (r, w')"
  shows "cmds w' = cmds w @ [c] \<and> shell w' = shell w \<and> stdin w' = stdin w \<and>
         files w' = snd (shell w c (files w)) \<and>
         r = (case fst (shell w c (files w)) of
                Exited rc \<Rightarrow> Inr (rc = 0)
              | Interrupted \<Rightarrow> Inl KeyboardInterrupt)"
  using assms
  by (auto simp: run_command_def Let_def print_def split: prod.splits proc.splits if_splits)

lemma convert_to_gguf_cases:
  assumes "convert_to_gguf mp on w = (r, w')"
  shows "shell w' = shell w \<and> stdin w' = stdin w \<and>
     (if \<not> exists ''./llama/convert_hf_to_gguf.py'' (files w) then
        r = Inr None \<and> files w' = files w \<and> cmds w' = cmds w
      else
        cmds w' = cmds w @ [convert_command mp on] \<and>
        files w' = snd (shell w (convert_command mp on) (files w)) \<and>
        r = (case fst (shell w (convert_command mp on) (files w)) of
               Interrupted \<Rightarrow> Inl KeyboardInterrupt
             | Exited rc \<Rightarrow>
                 Inr (if rc = 0 \<and> exists (on @ ''-f16.gguf'') (files w')
                      then Some (on @ ''-f16.gguf'') else None)))"
proof (cases "exists ''./llama/convert_hf_to_gguf.py'' (files w)")
  case False
  then show ?thesis using assms by (auto simp: convert_to_gguf_def Let_def)
next
  case True
  obtain x w1 where rc: "run_command (convert_command mp on)
                (''Converting '' @ mp @ '' to GGUF format'') w = (x, w1)"
    by (cases "run_command (convert_command mp on) (''Converting '' @ mp @ '' to GGUF format'') w")
  note c = run_command_cases [OF rc]
  show ?thesis
  proof (cases "fst (shell w (convert_command mp on) (files w))")
    case Interrupted
    then show ?thesis using assms True rc c by (auto simp: convert_to_gguf_def Let_def)
  next
    case (Exited n)
    then show ?thesis using assms True rc c
      by (auto simp: convert_to_gguf_def Let_def split: if_splits)
  qed
qed

lemma exists_getsize: "exists p fs \<Longrightarrow> \<exists>n. getsize p fs = Inr n"
  by (auto simp: exists_def getsize_def split: option.splits node.splits)

lemma getsize_exn: "getsize p fs = Inl e \<Longrightarrow> \<exists>m. e = OSError m"
  by (auto simp: getsize_def split: option.splits node.splits)

lemma quantize_loop_exn:
  "quantize_loop f16 on qs S F w = (Inl e, w') \<Longrightarrow> e = KeyboardInterrupt"
proof (induction qs arbitrary: S F w)
  case Nil
  then show ?case by simp
next
  case (Cons q qs)
  obtain x w1 where rc: "run_command (quantize_command f16 on q) (''Quantizing to '' @ q) w = (x, w1)"
    by (cases "run_command (quantize_command f16 on q) (''Quantizing to '' @ q) w")
  note c = run_command_cases [OF rc]
  show ?case
  proof (cases x)
    case (Inl e')
    then show ?thesis using Cons.prems rc c by (auto split: proc.splits)
  next
    case (Inr ok)
    show ?thesis
    proof (cases "ok \<and> exists (on @ ''-'' @ q @ ''.gguf'') (files w1)")
      case True
      then obtain n where "getsize (on @ ''-'' @ q @ ''.gguf'') (files w1) = Inr n"
        using exists_getsize by blast
      then show ?thesis using Cons.prems rc Inr True Cons.IH by (auto simp: Let_def)
    next
      case False
      then show ?thesis using Cons.prems rc Inr Cons.IH by (auto simp: Let_def)
    qed
  qed
qed

lemma quantize_model_exn:
  "quantize_model f16 on qs w = (Inl e, w') \<Longrightarrow> e = KeyboardInterrupt"
  by (auto simp: quantize_model_def Let_def split: if_splits prod.splits sum.splits
      dest: quantize_loop_exn)

lemma main_body_raises:
  assumes "main_body w = (r, w')"
  shows "\<exists>e. r = Inl e \<and> (\<forall>n. e = SystemExit n \<longrightarrow> n = 1)"
proof -
  obtain r1 w1 where g: "get_user_input w = (r1, w1)" by (cases "get_user_input w")
  note c1 = get_user_input_console [OF g]
  show ?thesis
  proof (cases r1)
    case (Inl e)
    then show ?thesis using assms g c1 by (auto simp: main_body_def input_exn_def)
  next
    case (Inr t)
    obtain mp on qs where t: "t = (mp, on, qs)" by (cases t)
    let ?w2 = "print (nl # ''Step 1: Converting to GGUF format'')
                    (print (''Quantization types: '' @ join '', '' qs)
                      (print (''Output name: '' @ on)
                        (print (''Model path: '' @ mp)
                          (print (nl # ''Starting conversion process...'') w1))))"
    obtain r2 w2 where cv: "convert_to_gguf mp on ?w2 = (r2, w2)"
      by (cases "convert_to_gguf mp on ?w2")
    have r2: "r2 = Inl KeyboardInterrupt \<or> (\<exists>x. r2 = Inr x)"
      using convert_to_gguf_cases [OF cv] by (auto split: if_splits proc.splits)
    show ?thesis
    proof (cases r2)
      case (Inl e)
      then show ?thesis using assms g Inr t cv r2 by (auto simp: main_body_def)
    next
      case c: (Inr x)
      show ?thesis
      proof (cases x)
        case None
        then show ?thesis using assms g Inr t cv c by (auto simp: main_body_def)
      next
        case (Some f)
        show ?thesis
        proof (cases "f = []")
          case True
          then show ?thesis using assms g Inr t cv c Some by (auto simp: main_body_def)
        next
          case ne: False
          show ?thesis
          proof (cases "getsize f (files w2)")
            case (Inl e)
            then show ?thesis using assms g Inr t cv c Some ne getsize_exn [OF Inl]
              by (auto simp: main_body_def)
          next
            case gs: (Inr n)
            let ?w3 = "print (nl # ''Step 2: Quantizing model'')
                                (print (package_mark @ '' Created '' @ f
                                          @ '' ('' @ fmt_mb n @ '' MB)'') w2)"
            obtain r3 w3 where q: "quantize_model f on qs ?w3 = (r3, w3)"
              by (cases "quantize_model f on qs ?w3")
            show ?thesis
            proof (cases r3)
              case (Inl e)
              then show ?thesis using assms g Inr t cv c Some ne gs q quantize_model_exn [of f on qs ?w3 e w3]
                by (auto simp: main_body_def)
            next
              case qr: (Inr res)
              then show ?thesis using assms g Inr t cv c Some ne gs q
                by (cases res) (auto simp: main_body_def read_local_def Let_def)
            qed
          qed
        qed
      qed
    qed
  qed
qed

lemma main_exit_status: "fst (main w) = 1"
proof -
  obtain r w' where m: "main_body w = (r, w')" by (cases "main_body w")
  from main_body_raises [OF m] obtain e where e: "r = Inl e" "\<forall>n. e = SystemExit n \<longrightarrow> n = 1"
    by blast
  then show ?thesis using m by (cases e) (auto simp: main_def)
qed

lemma replicate_numeral: "replicate (numeral k) x = x # replicate (pred_numeral k) x"
  by (simp add: numeral_eq_Suc)

lemmas main_simps = replicate_numeral
  main_def main_body_def convert_to_gguf_def run_command_def quantize_model_def
  getsize_def fmt_mb_def show_nat.simps show_int_def digit_def print_summary_def read_local_def
  str_exn_def convert_command_def quantize_command_def tool_shell_def once_shell_def machine_def
  llama_files_def apos_def

lemma recorded_Cons [simp]:
  "recorded b (q # qs) (ok # os) = (if ok = b then q # recorded b qs os else recorded b qs os)"
  by (simp add: recorded_def)

lemma recorded_Nil [simp]: "recorded b [] os = []" "recorded b qs [] = []"
  by (simp_all add: recorded_def)

lemma outcomes_length: "length (outcomes sh f16 on qs fs) \<le> length qs"
  by (induction qs arbitrary: fs) (auto split: prod.splits proc.splits)

lemma quantize_loop_outcomes:
  assumes "quantize_loop f16 on qs S F w = (r, w')"
  shows "if length (outcomes (shell w) f16 on qs (files w)) = length qs
         then r = Inr (S @ recorded True qs (outcomes (shell w) f16 on qs (files w)),
                       F @ recorded False qs (outcomes (shell w) f16 on qs (files w)))
              \<and> cmds w' = cmds w @ map (quantize_command f16 on) qs
         else r = Inl KeyboardInterrupt"
  using assms
proof (induction qs arbitrary: S F w)
  case Nil
  then show ?case by simp
next
  case (Cons q qs)
  obtain x w1 where rc: "run_command (quantize_command f16 on q) (''Quantizing to '' @ q) w = (x, w1)"
    by (cases "run_command (quantize_command f16 on q) (''Quantizing to '' @ q) w")
  note c = run_command_cases [OF rc]
  obtain p fs where sh: "shell w (quantize_command f16 on q) (files w) = (p, fs)"
    by (cases "shell w (quantize_command f16 on q) (files w)")
  show ?case
  proof (cases p)
    case Interrupted
    then show ?thesis using Cons.prems rc c sh by simp
  next
    case (Exited n)
    then have x: "x = Inr (n = 0)" and w1: "files w1 = fs" "shell w1 = shell w"
      "cmds w1 = cmds w @ [quantize_command f16 on q]"
      using c sh by simp_all
    let ?ok = "n = 0 \<and> exists (on @ ''-'' @ q @ ''.gguf'') fs"
    have os: "outcomes (shell w) f16 on (q # qs) (files w) = ?ok # outcomes (shell w) f16 on qs fs"
      using sh Exited by simp
    have len: "(length (outcomes (shell w) f16 on (q # qs) (files w)) = length (q # qs))
               = (length (outcomes (shell w) f16 on qs fs) = length qs)"
      using os by simp
    show ?thesis
    proof (cases ?ok)
      case True
      then obtain m where gs: "getsize (on @ ''-'' @ q @ ''.gguf'') (files w1) = Inr m"
        using exists_getsize w1 by metis
      let ?w2 = "print (package_mark @ '' Created '' @ (on @ ''-'' @ q @ ''.gguf'')
                             @ '' ('' @ fmt_mb m @ '' MB)'') w1"
      have "quantize_loop f16 on qs (S @ [q]) F ?w2 = (r, w')"
        using Cons.prems rc x True w1 gs by (simp add: Let_def)
      from Cons.IH [OF this] show ?thesis
        unfolding len os using True w1 by (simp split: if_splits)
    next
      case False
      have "quantize_loop f16 on qs S (F @ [q]) w1 = (r, w')"
        using Cons.prems rc x False w1 by (auto simp: Let_def)
      from Cons.IH [OF this] show ?thesis
        unfolding len os using False w1 by (simp split: if_splits)
    qed
  qed
qed

lemma recorded_subset_zip:
  "q \<in> set (recorded b qs os) \<Longrightarrow> (q, b) \<in> set (zip qs os)"
  by (auto simp: recorded_def)

lemma recorded_disjoint:
  assumes "distinct qs"
  shows "set (recorded True qs os) \<inter> set (recorded False qs os) = {}"
proof -
  have d: "distinct (map fst (zip qs os))"
    using assms by (simp add: map_fst_zip_take)
  show ?thesis
  proof (rule ccontr)
    assume "set (recorded True qs os) \<inter> set (recorded False qs os) \<noteq> {}"
    then obtain q where "(q, True) \<in> set (zip qs os)" "(q, False) \<in> set (zip qs os)"
      using recorded_subset_zip by blast
    then show False using eq_key_imp_eq_value [OF d] by blast
  qed
qed

lemma recorded_lengths:
  "length (recorded True qs os) + length (recorded False qs os) = min (length qs) (length os)"
proof (induction qs arbitrary: os)
  case Nil
  then show ?case by simp
next
  case (Cons q qs)
  then show ?case by (cases os) auto
qed

lemma main_conversion_failed:
  assumes g: "get_user_input w = (Inr (mp, on, qs), w1)"
    and s: "exists ''./llama/convert_hf_to_gguf.py'' (files w)"
    and sh: "shell w (convert_command mp on) (files w) = (Exited rc, fs)"
    and no: "\<not> (rc = 0 \<and> exists (on @ ''-f16.gguf'') fs)"
  shows "\<exists>w2. main w = (1, print (cross_mark @ '' Conversion failed. Exiting.'') w2)
              \<and> cmds w2 = cmds w @ [convert_command mp on] \<and> files w2 = fs"
proof -
  have c1: "files w1 = files w" "shell w1 = shell w" "cmds w1 = cmds w"
    using get_user_input_console [OF g] by (simp_all add: console_only_def)
  let ?w2 = "print (nl # ''Step 1: Converting to GGUF format'')
                    (print (''Quantization types: '' @ join '', '' qs)
                      (print (''Output name: '' @ on)
                        (print (''Model path: '' @ mp)
                          (print (nl # ''Starting conversion process...'') w1))))"
  obtain r2 w2 where cv: "convert_to_gguf mp on ?w2 = (r2, w2)"
    by (cases "convert_to_gguf mp on ?w2")
  have "r2 = Inr None \<and> cmds w2 = cmds w @ [convert_command mp on] \<and> files w2 = fs"
    using convert_to_gguf_cases [OF cv] c1 s sh no by auto
  then have "main w = (1, print (cross_mark @ '' Conversion failed. Exiting.'') w2)
              \<and> cmds w2 = cmds w @ [convert_command mp on] \<and> files w2 = fs"
    using g cv by (simp add: main_def main_body_def)
  then show ?thesis by blast
qed

lemma get_user_input_fst:
  "fst (get_user_input w) = Inr t \<Longrightarrow> get_user_input w = (Inr t, snd (get_user_input w))"
  by (simp add: prod_eq_iff)

text \<open>C4: the conversion returns a file name only if the converter script exists, the
  command exits with status 0 and the f16 file exists afterwards; and when the command
  exits with status 0 but the file is absent, the conversion returns \<^verbatim>\<open>None\<close>, the
  process exits with status 1 by \<^verbatim>\<open>sys.exit\<close>, and the conversion command is the only
  command that was run.\<close>

theorem conversion_needs_the_file:
  "(fst (convert_to_gguf model_path output_name w) = Inr (Some f16_file) \<longrightarrow>
      f16_file = output_name @ ''-f16.gguf''
      \<and> exists ''./llama/convert_hf_to_gguf.py'' (files w)
      \<and> fst (shell w (convert_command model_path output_name) (files w)) = Exited 0
      \<and> exists f16_file (snd (shell w (convert_command model_path output_name) (files w))))
   \<and> (get_user_input w = (Inr (model_path, output_name, selected_quants), w1)
        \<and> exists ''./llama/convert_hf_to_gguf.py'' (files w)
        \<and> shell w (convert_command model_path output_name) (files w) = (Exited 0, fs)
        \<and> \<not> exists (output_name @ ''-f16.gguf'') fs
      \<longrightarrow> fst (convert_to_gguf model_path output_name w) = Inr None
          \<and> fst (main w) = 1
          \<and> cmds (snd (main w)) = cmds w @ [convert_command model_path output_name]
          \<and> last (stdout (snd (main w))) = cross_mark @ '' Conversion failed. Exiting.'')"
proof -
  obtain r w' where cv: "convert_to_gguf model_path output_name w = (r, w')"
    by (cases "convert_to_gguf model_path output_name w")
  note c = convert_to_gguf_cases [OF cv]
  have a: "f16_file = output_name @ ''-f16.gguf''
      \<and> exists ''./llama/convert_hf_to_gguf.py'' (files w)
      \<and> fst (shell w (convert_command model_path output_name) (files w)) = Exited 0
      \<and> exists f16_file (snd (shell w (convert_command model_path output_name) (files w)))"
    if "r = Inr (Some f16_file)"
    using c that by (auto split: if_splits proc.splits)
  have b: "r = Inr None \<and> fst (main w) = 1
          \<and> cmds (snd (main w)) = cmds w @ [convert_command model_path output_name]
          \<and> last (stdout (snd (main w))) = cross_mark @ '' Conversion failed. Exiting.''"
    if g: "get_user_input w = (Inr (model_path, output_name, selected_quants), w1)"
      and s: "exists ''./llama/convert_hf_to_gguf.py'' (files w)"
      and sh: "shell w (convert_command model_path output_name) (files w) = (Exited 0, fs)"
      and no: "\<not> exists (output_name @ ''-f16.gguf'') fs"
  proof -
    have "r = Inr None" using c s sh no by auto
    moreover have "\<not> (0 = (0::int) \<and> exists (output_name @ ''-f16.gguf'') fs)" using no by simp
    from main_conversion_failed [OF g s sh this]
    have "fst (main w) = 1
          \<and> cmds (snd (main w)) = cmds w @ [convert_command model_path output_name]
          \<and> last (stdout (snd (main w))) = cross_mark @ '' Conversion failed. Exiting.''"
      by (auto simp: print_def)
    ultimately show ?thesis by simp
  qed
  show ?thesis using cv a b by auto
qed

theorem conversion_needs_the_file_witness:
  "fst (convert_to_gguf ''my-model'' ''my-model'' world_tools) = Inr (Some ''my-model-f16.gguf'')
   \<and> exists ''./llama/convert_hf_to_gguf.py'' (files world_tools)
   \<and> fst (shell world_tools (convert_command ''my-model'' ''my-model'') (files world_tools)) = Exited 0
   \<and> exists ''my-model-f16.gguf'' (snd (shell world_tools (convert_command ''my-model'' ''my-model'') (files world_tools)))
   \<and> fst (get_user_input world_silent_converter) = Inr (''my-model'', ''my-model'', QUANTIZATION_TYPES)
   \<and> exists ''./llama/convert_hf_to_gguf.py'' (files world_silent_converter)
   \<and> shell world_silent_converter (convert_command ''my-model'' ''my-model'') (files world_silent_converter) = (Exited 0, llama_files)
   \<and> \<not> exists ''my-model-f16.gguf'' llama_files
   \<and> fst (convert_to_gguf ''my-model'' ''my-model'' world_silent_converter) = Inr None
   \<and> fst (main world_silent_converter) = 1
   \<and> cmds (snd (main world_silent_converter)) = [convert_command ''my-model'' ''my-model'']
   \<and> last (stdout (snd (main world_silent_converter))) = cross_mark @ '' Conversion failed. Exiting.''"
proof -
  have a: "fst (convert_to_gguf ''my-model'' ''my-model'' world_tools) = Inr (Some ''my-model-f16.gguf'')"
    by (simp add: world_tools_def run_simps main_simps)
  have g: "fst (get_user_input world_silent_converter) = Inr (''my-model'', ''my-model'', QUANTIZATION_TYPES)"
    by (simp add: world_silent_converter_def machine_def llama_files_def
        get_user_input_def ask_model_path.simps ask_output_name_def select_quants.simps
        input_def print_def Let_def strip_def isspace_def exists_def rstrip_def basename_def)
  obtain w1 where g1: "get_user_input world_silent_converter = (Inr (''my-model'', ''my-model'', QUANTIZATION_TYPES), w1)"
    using g by (cases "get_user_input world_silent_converter") auto
  have s: "exists ''./llama/convert_hf_to_gguf.py'' (files world_silent_converter)"
    by (simp add: world_silent_converter_def machine_def llama_files_def exists_def)
  have sh: "shell world_silent_converter (convert_command ''my-model'' ''my-model'') (files world_silent_converter) = (Exited 0, llama_files)"
    by (simp add: world_silent_converter_def machine_def idle_shell_def)
  have no: "\<not> exists (''my-model'' @ ''-f16.gguf'') llama_files"
    by (simp add: llama_files_def exists_def)
  have c: "cmds world_silent_converter = []" by (simp add: world_silent_converter_def machine_def)
  note t1 = conversion_needs_the_file [of "''my-model''" "''my-model''" world_tools "''my-model-f16.gguf''",
      THEN conjunct1, rule_format, OF a]
  note t2 = conversion_needs_the_file [of "''my-model''" "''my-model''" world_silent_converter _ QUANTIZATION_TYPES
        w1 llama_files, THEN conjunct2, rule_format, OF conjI [OF g1 conjI [OF s conjI [OF sh no]]]]
  have 1: "exists ''./llama/convert_hf_to_gguf.py'' (files world_tools)
   \<and> fst (shell world_tools (convert_command ''my-model'' ''my-model'') (files world_tools)) = Exited 0
   \<and> exists ''my-model-f16.gguf'' (snd (shell world_tools (convert_command ''my-model'' ''my-model'') (files world_tools)))"
    using t1 by simp
  have 2: "fst (convert_to_gguf ''my-model'' ''my-model'' world_silent_converter) = Inr None
   \<and> fst (main world_silent_converter) = 1
   \<and> cmds (snd (main world_silent_converter)) = [convert_command ''my-model'' ''my-model'']
   \<and> last (stdout (snd (main world_silent_converter))) = cross_mark @ '' Conversion failed. Exiting.''"
    using t2 c by simp
  show ?thesis using a g s sh no 1 2 by simp
qed

text \<open>C5 (amended): with the quantizer in place and no interrupt, \<^verbatim>\<open>quantize_model\<close> runs
  one command per selected profile, in the selected order, whatever the earlier outcomes;
  it returns as succeeded exactly the profiles whose own command exited with status 0 and
  left its file, as failed the others, every attempt in one list; the two lists are
  disjoint when no profile is selected twice.\<close>

theorem quantize_model_outcomes:
  assumes "exists ''./llama/bin/llama-quantize'' (files w)"
    and "length (outcomes (shell w) f16_file output_name quant_types (files w)) = length quant_types"
  shows "fst (quantize_model f16_file output_name quant_types w) =
           Inr (ReturnedLists
                  (recorded True quant_types (outcomes (shell w) f16_file output_name quant_types (files w)))
                  (recorded False quant_types (outcomes (shell w) f16_file output_name quant_types (files w))))
       \<and> cmds (snd (quantize_model f16_file output_name quant_types w))
           = cmds w @ map (quantize_command f16_file output_name) quant_types
       \<and> length (recorded True quant_types (outcomes (shell w) f16_file output_name quant_types (files w)))
           + length (recorded False quant_types (outcomes (shell w) f16_file output_name quant_types (files w)))
           = length quant_types
       \<and> (distinct quant_types \<longrightarrow>
            set (recorded True quant_types (outcomes (shell w) f16_file output_name quant_types (files w)))
            \<inter> set (recorded False quant_types (outcomes (shell w) f16_file output_name quant_types (files w)))
            = {})"
proof -
  obtain r w' where q: "quantize_loop f16_file output_name quant_types [] [] w = (r, w')"
    by (cases "quantize_loop f16_file output_name quant_types [] [] w")
  from quantize_loop_outcomes [OF q] assms(2)
  have r: "r = Inr (recorded True quant_types (outcomes (shell w) f16_file output_name quant_types (files w)),
                   recorded False quant_types (outcomes (shell w) f16_file output_name quant_types (files w)))"
    and c: "cmds w' = cmds w @ map (quantize_command f16_file output_name) quant_types"
    by simp_all
  have "quantize_model f16_file output_name quant_types w =
          (Inr (ReturnedLists
                  (recorded True quant_types (outcomes (shell w) f16_file output_name quant_types (files w)))
                  (recorded False quant_types (outcomes (shell w) f16_file output_name quant_types (files w)))), w')"
    using assms(1) q r by (simp add: quantize_model_def)
  then show ?thesis
    using c recorded_disjoint recorded_lengths [of quant_types] assms(2) by simp
qed

theorem quantize_model_outcomes_witness:
  "exists ''./llama/bin/llama-quantize'' (files world_tools)
   \<and> outcomes (shell world_tools) ''my-model-f16.gguf'' ''my-model'' [''Q4_0'', ''Q5_K_M'', ''Q8_0''] (files world_tools)
       = [True, False, True]
   \<and> distinct [''Q4_0'', ''Q5_K_M'', ''Q8_0'']
   \<and> fst (quantize_model ''my-model-f16.gguf'' ''my-model'' [''Q4_0'', ''Q5_K_M'', ''Q8_0''] world_tools)
       = Inr (ReturnedLists [''Q4_0'', ''Q8_0''] [''Q5_K_M''])
   \<and> cmds (snd (quantize_model ''my-model-f16.gguf'' ''my-model'' [''Q4_0'', ''Q5_K_M'', ''Q8_0''] world_tools))
       = [''./llama/bin/llama-quantize my-model-f16.gguf my-model-Q4_0.gguf Q4_0'',
          ''./llama/bin/llama-quantize my-model-f16.gguf my-model-Q5_K_M.gguf Q5_K_M'',
          ''./llama/bin/llama-quantize my-model-f16.gguf my-model-Q8_0.gguf Q8_0'']
   \<and> set [''Q4_0'', ''Q8_0''] \<inter> set [''Q5_K_M''] = {}"
proof -
  have e: "exists ''./llama/bin/llama-quantize'' (files world_tools)"
    by (simp add: world_tools_def machine_def llama_files_def exists_def)
  have os: "outcomes (shell world_tools) ''my-model-f16.gguf'' ''my-model'' [''Q4_0'', ''Q5_K_M'', ''Q8_0''] (files world_tools)
       = [True, False, True]"
    by (simp add: world_tools_def machine_def llama_files_def exists_def tool_shell_def
        quantize_command_def split.simps)
  have d: "distinct [''Q4_0'', ''Q5_K_M'', ''Q8_0'']" by simp
  have l: "length (outcomes (shell world_tools) ''my-model-f16.gguf'' ''my-model'' [''Q4_0'', ''Q5_K_M'', ''Q8_0''] (files world_tools))
       = length [''Q4_0'', ''Q5_K_M'', ''Q8_0'']"
    using os by simp
  have c: "cmds world_tools = []" by (simp add: world_tools_def machine_def)
  show ?thesis
    using quantize_model_outcomes [OF e l] e os d c
    by (simp add: quantize_command_def)
qed

text \<open>The claim as stated fails for a profile selected twice: with a quantizer that
  refuses to overwrite its output, the first attempt succeeds and the second fails, and
  the profile is in both lists.\<close>

theorem duplicate_profile_in_both_lists:
  "(case fst (quantize_model ''my-model-f16.gguf'' ''my-model'' [''Q4_0'', ''Q4_0'']
               (machine llama_files once_shell [])) of
      Inr (ReturnedLists successful_quants failed_quants) \<Rightarrow>
        successful_quants = [''Q4_0''] \<and> failed_quants = [''Q4_0'']
        \<and> set successful_quants \<inter> set failed_quants \<noteq> {}
    | _ \<Rightarrow> False)"
  by (simp add: run_simps main_simps)

text \<open>C1 (the code departs from it): for every run in which the input is collected, the
  converter exits with status 0 and the f16 file exists, the exit status of the process is
  1, never 0: the body of \<^verbatim>\<open>main\<close> ends in an interrupt, in the \<^verbatim>\<open>TypeError\<close> of unpacking
  \<^verbatim>\<open>False\<close> (quantizer missing), or in the \<^verbatim>\<open>UnboundLocalError\<close> of line 228, which
  the last handler turns into status 1.\<close>

theorem exit_status_after_conversion:
  assumes g: "get_user_input w = (Inr (model_path, output_name, selected_quants), w1)"
    and s: "exists ''./llama/convert_hf_to_gguf.py'' (files w)"
    and sh: "shell w (convert_command model_path output_name) (files w) = (Exited 0, fs)"
    and f: "exists (output_name @ ''-f16.gguf'') fs"
  shows "fst (main w) = 1
       \<and> (\<exists>e. fst (main_body w) = Inl e
             \<and> (e = KeyboardInterrupt
                \<or> e = TypeError ''cannot unpack non-iterable bool object''
                \<or> e = UnboundLocalError (''cannot access local variable '' @ apos @ ''gguf_folder''
                         @ apos @ '' where it is not associated with a value'')))"
proof -
  have c1: "files w1 = files w" "shell w1 = shell w" "cmds w1 = cmds w"
    using get_user_input_console [OF g] by (simp_all add: console_only_def)
  let ?w2 = "print (nl # ''Step 1: Converting to GGUF format'')
                    (print (''Quantization types: '' @ join '', '' selected_quants)
                      (print (''Output name: '' @ output_name)
                        (print (''Model path: '' @ model_path)
                          (print (nl # ''Starting conversion process...'') w1))))"
  obtain r2 w2 where cv: "convert_to_gguf model_path output_name ?w2 = (r2, w2)"
    by (cases "convert_to_gguf model_path output_name ?w2")
  have r2: "r2 = Inr (Some (output_name @ ''-f16.gguf''))" and w2: "files w2 = fs"
    using convert_to_gguf_cases [OF cv] c1 s sh f by auto
  obtain n where gs: "getsize (output_name @ ''-f16.gguf'') (files w2) = Inr n"
    using exists_getsize f w2 by metis
  let ?w3 = "print (nl # ''Step 2: Quantizing model'')
               (print (package_mark @ '' Created '' @ (output_name @ ''-f16.gguf'')
                         @ '' ('' @ fmt_mb n @ '' MB)'') w2)"
  obtain r3 w3 where q: "quantize_model (output_name @ ''-f16.gguf'') output_name selected_quants ?w3 = (r3, w3)"
    by (cases "quantize_model (output_name @ ''-f16.gguf'') output_name selected_quants ?w3")
  have "\<exists>e. fst (main_body w) = Inl e
             \<and> (e = KeyboardInterrupt
                \<or> e = TypeError ''cannot unpack non-iterable bool object''
                \<or> e = UnboundLocalError (''cannot access local variable '' @ apos @ ''gguf_folder''
                         @ apos @ '' where it is not associated with a value''))"
  proof (cases r3)
    case (Inl e)
    then show ?thesis using g cv r2 gs q quantize_model_exn [of _ _ _ ?w3 e w3]
      by (auto simp: main_body_def)
  next
    case (Inr res)
    then show ?thesis using g cv r2 gs q
      by (cases res) (auto simp: main_body_def read_local_def Let_def)
  qed
  then show ?thesis using main_exit_status by blast
qed

theorem exit_status_after_conversion_witness:
  "fst (get_user_input world_one_profile) = Inr (''my-model'', ''my-model'', [''Q4_0''])
   \<and> exists ''./llama/convert_hf_to_gguf.py'' (files world_one_profile)
   \<and> shell world_one_profile (convert_command ''my-model'' ''my-model'') (files world_one_profile)
       = (Exited 0, (''my-model-f16.gguf'', File 2097152) # llama_files)
   \<and> exists ''my-model-f16.gguf'' ((''my-model-f16.gguf'', File 2097152) # llama_files)
   \<and> fst (main world_one_profile) = 1
   \<and> fst (main_body world_one_profile) =
       Inl (UnboundLocalError ''cannot access local variable 'gguf_folder' where it is not associated with a value'')"
proof -
  have g: "fst (get_user_input world_one_profile) = Inr (''my-model'', ''my-model'', [''Q4_0''])"
    by (simp add: world_one_profile_def run_simps main_simps)
  have s: "exists ''./llama/convert_hf_to_gguf.py'' (files world_one_profile)"
    by (simp add: world_one_profile_def machine_def llama_files_def exists_def)
  have sh: "shell world_one_profile (convert_command ''my-model'' ''my-model'') (files world_one_profile)
       = (Exited 0, (''my-model-f16.gguf'', File 2097152) # llama_files)"
    by (simp add: world_one_profile_def machine_def tool_shell_def convert_command_def split.simps)
  have f: "exists (''my-model'' @ ''-f16.gguf'') ((''my-model-f16.gguf'', File 2097152) # llama_files)"
    by (simp add: exists_def)
  have b: "fst (main_body world_one_profile) =
       Inl (UnboundLocalError ''cannot access local variable 'gguf_folder' where it is not associated with a value'')"
    by (simp add: world_one_profile_def run_simps main_simps)
  obtain w1 where g1: "get_user_input world_one_profile = (Inr (''my-model'', ''my-model'', [''Q4_0'']), w1)"
    using g by (cases "get_user_input world_one_profile") auto
  have "fst (main world_one_profile) = 1"
    using exit_status_after_conversion [OF g1 s sh f] by simp
  then show ?thesis using g s sh f b by simp
qed

text \<open>C2 (the code departs from it): a run with the converter at work and no quantizer.
  The missing quantizer is reported, then unpacking the returned \<^verbatim>\<open>False\<close> raises: the
  summary is never printed and the exit status is 1.\<close>

theorem quantizer_missing_run:
  "(case main world_no_quantizer of
      (status, w') \<Rightarrow>
        status = 1
        \<and> cross_mark @ '' Quantizer not found: ./llama/bin/llama-quantize'' \<in> set (stdout w')
        \<and> nl # ''Process completed!'' \<notin> set (stdout w')
        \<and> last (stdout w') = ''Unexpected error: cannot unpack non-iterable bool object''
        \<and> cmds w' = [''python3 ./llama/convert_hf_to_gguf.py ./my-model --outfile my-model-f16.gguf --outtype f16''])"
  by (simp add: world_no_quantizer_def run_simps main_simps)

text \<open>C3 (the code departs from it): a run with three profiles of which the second fails.
  The summary counts 2 and 1, then line 228 raises: the exit status is 1, no folder is made
  and every file stays where the tools wrote it.\<close>

theorem three_profiles_one_failure:
  "(case main world_three_profiles of
      (status, w') \<Rightarrow>
        status = 1
        \<and> check_mark @ '' Successfully created 2 quantized models:'' \<in> set (stdout w')
        \<and> cross_mark @ '' Failed to create 1 quantized models:'' \<in> set (stdout w')
        \<and> last (stdout w') = ''Unexpected error: cannot access local variable 'gguf_folder' where it is not associated with a value''
        \<and> map fst (files w') =
            [''my-model-Q8_0.gguf'', ''my-model-Q4_0.gguf'', ''my-model-f16.gguf'', ''my-model'',
             ''./llama/convert_hf_to_gguf.py'', ''./llama/bin/llama-quantize''])"
  by (simp add: world_three_profiles_def run_simps main_simps)

end
